theory Spec2Isabelle
  imports Main "HOL-Library.Code_Target_Nat"
begin

section \<open>The wrap/unwrap bot (src/bot.py)\<close>

text \<open>
  The script talks to three collaborators: the chain client (web3), the clock and the file
  \<^verbatim>\<open>transaction_status.json\<close>. The chain and the clock are a world of an arbitrary type
  \<open>'w\<close>; every call of the client takes the world and returns its answer with the next
  world. A call that raises returns \<open>Inl\<close> of the exception. Python integers are \<open>int\<close>.
  Clock readings (\<^verbatim>\<open>time.time()\<close>, a float of seconds) are read as whole ticks of type
  \<open>int\<close>. What \<^verbatim>\<open>print\<close> writes is kept as a list of messages, one constructor for each
  \<^verbatim>\<open>print\<close> statement of the source.

  Left out of the model: the start-up of the module (lines 6-30, the environment and the
  connection check), exceptions that are not instances of \<^verbatim>\<open>Exception\<close> (a keyboard
  interrupt), failures of \<^verbatim>\<open>print\<close>, of the clock, and of writing and removing the status
  file, and JSON numbers with a fraction beyond their text. The counters of the loop are
  integers, as \<^verbatim>\<open>save_transaction_status\<close> writes them.
\<close>

subsection \<open>Data\<close>

type_synonym address = string
type_synonym tx_hash = string

datatype exn =
    Exception string
  | KeyError string
  | TypeError string
  | OverflowError string
  | UnicodeDecodeError string
  | RecursionError string
  | OSError string

text \<open>The object a contract function call is bound to, and the dict given to \<^verbatim>\<open>estimate_gas\<close>.\<close>

datatype contract_call = Deposit int | Withdraw int

record call_params =
  param_from :: address
  param_value :: "int option"

text \<open>The transaction dict of lines 123-132 and 148-156; \<^verbatim>\<open>'value'\<close> is absent in an unwrap.\<close>

record transaction =
  tx_to :: address
  tx_chainId :: int
  tx_gas :: int
  tx_maxFeePerGas :: int
  tx_maxPriorityFeePerGas :: int
  tx_nonce :: int
  tx_value :: "int option"
  tx_data :: string

text \<open>A receipt is a dict; only integer-valued fields are read.\<close>

type_synonym receipt = "(string \<times> int) list"

record 'w client =
  get_balance :: "address \<Rightarrow> 'w \<Rightarrow> (exn + int) \<times> 'w"
  balanceOf :: "address \<Rightarrow> 'w \<Rightarrow> (exn + int) \<times> 'w"
  get_transaction_count :: "address \<Rightarrow> 'w \<Rightarrow> (exn + int) \<times> 'w"
  estimate_gas :: "contract_call \<Rightarrow> call_params \<Rightarrow> 'w \<Rightarrow> (exn + int) \<times> 'w"
  sign_transaction :: "transaction \<Rightarrow> string \<Rightarrow> exn + string"
  send_raw_transaction :: "string \<Rightarrow> 'w \<Rightarrow> (exn + tx_hash) \<times> 'w"
  get_transaction_receipt :: "tx_hash \<Rightarrow> 'w \<Rightarrow> (exn + receipt option) \<times> 'w"
  time_time :: "'w \<Rightarrow> int"
  time_sleep :: "int \<Rightarrow> 'w \<Rightarrow> 'w"

record config =
  my_address :: address
  weth_contract_address :: address
  private_key :: string

text \<open>\<^verbatim>\<open>web3.to_wei(0.4, 'ether')\<close> and \<^verbatim>\<open>web3.to_wei(0.025, 'gwei')\<close>.\<close>

definition amount_in_wei :: int where
  "amount_in_wei = 400000000000000000"

definition max_priority_fee_per_gas :: int where
  "max_priority_fee_per_gas = 25000000"

definition max_fee_per_gas :: int where
  "max_fee_per_gas = 25000000"

text \<open>What \<^verbatim>\<open>json.load\<close> returns: a Python value. A dict is its list of items.\<close>

datatype json =
    JNull
  | JBool bool
  | JInt int
  | JFloat string
  | JStr string
  | JArr "json list"
  | JObj "(string \<times> json) list"

text \<open>
  A status file that exists, by what \<^verbatim>\<open>open\<close> and \<^verbatim>\<open>json.load\<close> make of it:
  \<^item> \<open>Unreadable e\<close>: one of them raises \<open>e\<close>, an exception that is neither
    \<^verbatim>\<open>FileNotFoundError\<close> nor \<^verbatim>\<open>JSONDecodeError\<close> (bytes that do not decode as text raise
    \<^verbatim>\<open>UnicodeDecodeError\<close>, brackets nested too deep \<^verbatim>\<open>RecursionError\<close>, a file that may not
    be read an \<^verbatim>\<open>OSError\<close>);
  \<^item> \<open>NotJson text\<close>: the content decodes to \<open>text\<close>, which \<^verbatim>\<open>json.load\<close> rejects with
    \<^verbatim>\<open>JSONDecodeError\<close>;
  \<^item> \<open>Json v\<close>: \<^verbatim>\<open>json.load\<close> returns the value \<open>v\<close>.
\<close>

datatype status_file = Unreadable exn | NotJson string | Json json

datatype msg =
    ErrorCheckingBalance exn
  | Confirmed tx_hash
  | Failed tx_hash
  | Timeout tx_hash
  | InsufficientEth
  | InsufficientWeth
  | WrapSent tx_hash
  | UnwrapSent tx_hash
  | ErrorSendingWrap exn
  | ErrorSendingUnwrap exn
  | TotalWrapping int int
  | TotalUnwrapping int int
  | StatusFileDeleted

text \<open>The module's globals that change, the status file, the output and the world.\<close>

record 'w state =
  wrap_counter :: int
  unwrap_counter :: int
  total_tx :: int
  fs :: "status_file option"
  out :: "msg list"
  world :: 'w

definition print :: "msg \<Rightarrow> 'w state \<Rightarrow> 'w state" where
  "print m s = s\<lparr>out := out s @ [m]\<rparr>"

subsection \<open>Balance gate (lines 76-98)\<close>

definition check_eth_balance :: "'w client \<Rightarrow> config \<Rightarrow> 'w \<Rightarrow> (exn + int) \<times> 'w" where
  "check_eth_balance c cfg w = get_balance c (my_address cfg) w"

definition check_weth_balance :: "'w client \<Rightarrow> config \<Rightarrow> 'w \<Rightarrow> (exn + int) \<times> 'w" where
  "check_weth_balance c cfg w = balanceOf c (my_address cfg) w"

definition get_next_nonce :: "'w client \<Rightarrow> config \<Rightarrow> 'w \<Rightarrow> (exn + int) \<times> 'w" where
  "get_next_nonce c cfg w = get_transaction_count c (my_address cfg) w"

definition deposit_params :: "config \<Rightarrow> int \<Rightarrow> call_params" where
  "deposit_params cfg amount = \<lparr>param_from = my_address cfg, param_value = Some amount\<rparr>"

definition withdraw_params :: "config \<Rightarrow> call_params" where
  "withdraw_params cfg = \<lparr>param_from = my_address cfg, param_value = None\<rparr>"

text \<open>
  The \<^verbatim>\<open>try\<close> covers the whole body: an exception of the estimate or of the balance read
  is printed and the result is \<^verbatim>\<open>False\<close>.
\<close>

definition has_sufficient_balance ::
  "'w client \<Rightarrow> config \<Rightarrow> int \<Rightarrow> bool \<Rightarrow> 'w state \<Rightarrow> bool \<times> 'w state" where
  "has_sufficient_balance c cfg amount is_wrap s =
     (case (if is_wrap
            then estimate_gas c (Deposit amount) (deposit_params cfg amount) (world s)
            else estimate_gas c (Withdraw amount) (withdraw_params cfg) (world s)) of
        (Inl e, w1) \<Rightarrow> (False, print (ErrorCheckingBalance e) (s\<lparr>world := w1\<rparr>))
      | (Inr gas_estimate, w1) \<Rightarrow>
          (let total_cost = max_priority_fee_per_gas * gas_estimate in
           if is_wrap then
             (case check_eth_balance c cfg w1 of
                (Inl e, w2) \<Rightarrow> (False, print (ErrorCheckingBalance e) (s\<lparr>world := w2\<rparr>))
              | (Inr b, w2) \<Rightarrow> (b \<ge> total_cost, s\<lparr>world := w2\<rparr>))
           else
             (case check_weth_balance c cfg w1 of
                (Inl e, w2) \<Rightarrow> (False, print (ErrorCheckingBalance e) (s\<lparr>world := w2\<rparr>))
              | (Inr b, w2) \<Rightarrow> (b \<ge> amount, s\<lparr>world := w2\<rparr>))))"

subsection \<open>Confirmation watcher (lines 100-115)\<close>

text \<open>
  One pass of the \<^verbatim>\<open>try\<close> block: \<open>Some True\<close> and \<open>Some False\<close> are the two
  \<^verbatim>\<open>return\<close>s; \<open>None\<close> is falling through to the sleep. A falsy receipt (\<^verbatim>\<open>None\<close> or an
  empty dict), a status other than 1 and 0, a receipt without \<^verbatim>\<open>'status'\<close> (a
  \<^verbatim>\<open>KeyError\<close>, swallowed by the bare \<^verbatim>\<open>except\<close>) and a query that raises all fall through.
\<close>

definition poll_verdict :: "exn + receipt option \<Rightarrow> bool option" where
  "poll_verdict r =
     (case r of
        Inl e \<Rightarrow> None
      | Inr None \<Rightarrow> None
      | Inr (Some receipt) \<Rightarrow>
          (if receipt = [] then None
           else (case map_of receipt ''status'' of
                   None \<Rightarrow> None
                 | Some st \<Rightarrow> if st = 1 then Some True else if st = 0 then Some False else None)))"

partial_function (option) wait_loop ::
  "'w client \<Rightarrow> tx_hash \<Rightarrow> int \<Rightarrow> int \<Rightarrow> 'w state \<Rightarrow> (bool \<times> 'w state) option" where
  "wait_loop c h start_time timeout s =
     (if time_time c (world s) - start_time < timeout then
        (case get_transaction_receipt c h (world s) of
           (r, w1) \<Rightarrow>
             (case poll_verdict r of
                Some True \<Rightarrow> Some (True, print (Confirmed h) (s\<lparr>world := w1\<rparr>))
              | Some False \<Rightarrow> Some (False, print (Failed h) (s\<lparr>world := w1\<rparr>))
              | None \<Rightarrow> wait_loop c h start_time timeout (s\<lparr>world := time_sleep c 30 w1\<rparr>)))
      else Some (False, print (Timeout h) s))"

declare wait_loop.simps [code]

definition wait_for_confirmation ::
  "'w client \<Rightarrow> tx_hash \<Rightarrow> int \<Rightarrow> 'w state \<Rightarrow> (bool \<times> 'w state) option" where
  "wait_for_confirmation c h timeout s = wait_loop c h (time_time c (world s)) timeout s"

subsection \<open>Payload encoding\<close>

text \<open>
  \<^verbatim>\<open>int.to_bytes(length, 'big')\<close> raises \<^verbatim>\<open>OverflowError\<close> on a negative integer and on one
  that does not fit; \<^verbatim>\<open>bytes.hex()\<close> writes two lower-case digits for each byte.
\<close>

fun big_endian :: "nat \<Rightarrow> nat \<Rightarrow> nat list" where
  "big_endian 0 n = []"
| "big_endian (Suc k) n = big_endian k (n div 256) @ [n mod 256]"

definition to_bytes :: "int \<Rightarrow> nat \<Rightarrow> exn + nat list" where
  "to_bytes n len =
     (if n < 0 then Inl (OverflowError ''can't convert negative int to unsigned'')
      else if n \<ge> 256 ^ len then Inl (OverflowError ''int too big to convert'')
      else Inr (big_endian len (nat n)))"

definition hex_digit :: "nat \<Rightarrow> char" where
  "hex_digit d = ''0123456789abcdef'' ! d"

definition hex :: "nat list \<Rightarrow> string" where
  "hex bs = concat (map (\<lambda>b. [hex_digit (b div 16), hex_digit (b mod 16)]) bs)"

text \<open>The reading of a byte string as a big-endian number, to state what the encoding holds.\<close>

definition from_bytes :: "nat list \<Rightarrow> nat" where
  "from_bytes bs = foldl (\<lambda>a b. a * 256 + b) 0 bs"

definition wrap_transaction :: "config \<Rightarrow> int \<Rightarrow> int \<Rightarrow> int \<Rightarrow> transaction" where
  "wrap_transaction cfg nonce gas_estimate amount =
     \<lparr>tx_to = weth_contract_address cfg,
      tx_chainId = 167000,
      tx_gas = gas_estimate,
      tx_maxFeePerGas = max_fee_per_gas,
      tx_maxPriorityFeePerGas = max_priority_fee_per_gas,
      tx_nonce = nonce,
      tx_value = Some amount,
      tx_data = ''0xd0e30db0''\<rparr>"

definition unwrap_transaction :: "config \<Rightarrow> int \<Rightarrow> int \<Rightarrow> int \<Rightarrow> exn + transaction" where
  "unwrap_transaction cfg nonce gas_estimate amount =
     (case to_bytes amount 32 of
        Inl e \<Rightarrow> Inl e
      | Inr bs \<Rightarrow>
          Inr \<lparr>tx_to = weth_contract_address cfg,
               tx_chainId = 167000,
               tx_gas = gas_estimate,
               tx_maxFeePerGas = max_fee_per_gas,
               tx_maxPriorityFeePerGas = max_priority_fee_per_gas,
               tx_nonce = nonce,
               tx_value = None,
               tx_data = ''0x2e1a7d4d'' @ hex bs\<rparr>)"

subsection \<open>The two operations (lines 117-164)\<close>

text \<open>
  Lines 133-140 and 157-164 are the same but for the two messages they print: the
  transaction is signed outside the \<^verbatim>\<open>try\<close>, so an exception of the signing leaves the
  function; the \<^verbatim>\<open>try\<close> covers the broadcast and the wait. \<open>None\<close> is a wait that never
  returns.
\<close>

definition sign_and_send ::
  "'w client \<Rightarrow> config \<Rightarrow> (tx_hash \<Rightarrow> msg) \<Rightarrow> (exn \<Rightarrow> msg) \<Rightarrow> transaction \<Rightarrow> 'w state
     \<Rightarrow> ((exn + bool) \<times> 'w state) option" where
  "sign_and_send c cfg sent error transaction s =
     (case sign_transaction c transaction (private_key cfg) of
        Inl e \<Rightarrow> Some (Inl e, s)
      | Inr raw_transaction \<Rightarrow>
          (case send_raw_transaction c raw_transaction (world s) of
             (Inl e, w1) \<Rightarrow> Some (Inr False, print (error e) (s\<lparr>world := w1\<rparr>))
           | (Inr h, w1) \<Rightarrow>
               (case wait_for_confirmation c h 300 (print (sent h) (s\<lparr>world := w1\<rparr>)) of
                  None \<Rightarrow> None
                | Some (b, s1) \<Rightarrow> Some (Inr b, s1))))"

definition wrap_eth_to_weth ::
  "'w client \<Rightarrow> config \<Rightarrow> int \<Rightarrow> 'w state \<Rightarrow> ((exn + bool) \<times> 'w state) option" where
  "wrap_eth_to_weth c cfg amount s =
     (case has_sufficient_balance c cfg amount True s of
        (False, s1) \<Rightarrow> Some (Inr False, print InsufficientEth s1)
      | (True, s1) \<Rightarrow>
          (case get_next_nonce c cfg (world s1) of
             (Inl e, w2) \<Rightarrow> Some (Inl e, s1\<lparr>world := w2\<rparr>)
           | (Inr nonce, w2) \<Rightarrow>
               (case estimate_gas c (Deposit amount) (deposit_params cfg amount) w2 of
                  (Inl e, w3) \<Rightarrow> Some (Inl e, s1\<lparr>world := w3\<rparr>)
                | (Inr gas_estimate, w3) \<Rightarrow>
                    sign_and_send c cfg WrapSent ErrorSendingWrap
                      (wrap_transaction cfg nonce gas_estimate amount) (s1\<lparr>world := w3\<rparr>))))"

definition unwrap_weth_to_eth ::
  "'w client \<Rightarrow> config \<Rightarrow> int \<Rightarrow> 'w state \<Rightarrow> ((exn + bool) \<times> 'w state) option" where
  "unwrap_weth_to_eth c cfg amount s =
     (case has_sufficient_balance c cfg amount False s of
        (False, s1) \<Rightarrow> Some (Inr False, print InsufficientWeth s1)
      | (True, s1) \<Rightarrow>
          (case get_next_nonce c cfg (world s1) of
             (Inl e, w2) \<Rightarrow> Some (Inl e, s1\<lparr>world := w2\<rparr>)
           | (Inr nonce, w2) \<Rightarrow>
               (case estimate_gas c (Withdraw amount) (withdraw_params cfg) w2 of
                  (Inl e, w3) \<Rightarrow> Some (Inl e, s1\<lparr>world := w3\<rparr>)
                | (Inr gas_estimate, w3) \<Rightarrow>
                    (case unwrap_transaction cfg nonce gas_estimate amount of
                       Inl e \<Rightarrow> Some (Inl e, s1\<lparr>world := w3\<rparr>)
                     | Inr transaction \<Rightarrow>
                         sign_and_send c cfg UnwrapSent ErrorSendingUnwrap
                           transaction (s1\<lparr>world := w3\<rparr>)))))"

subsection \<open>Progress store (lines 166-181)\<close>

definition status_doc :: "int \<Rightarrow> int \<Rightarrow> int \<Rightarrow> json" where
  "status_doc w u t =
     JObj [(''wrap_counter'', JInt w), (''unwrap_counter'', JInt u), (''total_tx'', JInt t)]"

definition save_transaction_status :: "int \<Rightarrow> int \<Rightarrow> int \<Rightarrow> 'w state \<Rightarrow> 'w state" where
  "save_transaction_status w u t s = s\<lparr>fs := Some (Json (status_doc w u t))\<rparr>"

text \<open>\<^verbatim>\<open>status[key]\<close>: a dict without the key raises \<^verbatim>\<open>KeyError\<close>, any other value \<^verbatim>\<open>TypeError\<close>.\<close>

fun subscript :: "json \<Rightarrow> string \<Rightarrow> exn + json" where
  "subscript (JObj items) k =
     (case map_of items k of None \<Rightarrow> Inl (KeyError k) | Some v \<Rightarrow> Inr v)"
| "subscript v k = Inl (TypeError ''not subscriptable by a string'')"

text \<open>
  The \<^verbatim>\<open>except\<close> clause names \<^verbatim>\<open>FileNotFoundError\<close> and \<^verbatim>\<open>JSONDecodeError\<close> only: every
  other exception of the reading, and the exceptions of the three subscripts, leave the
  function.
\<close>

definition load_transaction_status :: "'w state \<Rightarrow> exn + (json \<times> json \<times> json)" where
  "load_transaction_status s =
     (case fs s of
        None \<Rightarrow> Inr (JInt 0, JInt 0, JInt 0)
      | Some (Unreadable e) \<Rightarrow> Inl e
      | Some (NotJson text) \<Rightarrow> Inr (JInt 0, JInt 0, JInt 0)
      | Some (Json status) \<Rightarrow>
          (case subscript status ''wrap_counter'' of
             Inl e \<Rightarrow> Inl e
           | Inr w \<Rightarrow>
               (case subscript status ''unwrap_counter'' of
                  Inl e \<Rightarrow> Inl e
                | Inr u \<Rightarrow>
                    (case subscript status ''total_tx'' of
                       Inl e \<Rightarrow> Inl e
                     | Inr t \<Rightarrow> Inr (w, u, t)))))"

subsection \<open>Main loop (lines 185-206)\<close>

text \<open>Lines 186-191 and 193-198: the guarded attempt, and the count and save on success.\<close>

definition wrap_branch ::
  "'w client \<Rightarrow> config \<Rightarrow> 'w state \<Rightarrow> ((exn + unit) \<times> 'w state) option" where
  "wrap_branch c cfg s =
     (if wrap_counter s < 45 \<and> total_tx s < 90 then
        (case wrap_eth_to_weth c cfg amount_in_wei s of
           None \<Rightarrow> None
         | Some (Inl e, s1) \<Rightarrow> Some (Inl e, s1)
         | Some (Inr ok, s1) \<Rightarrow>
             (if ok then
                (let s2 = s1\<lparr>wrap_counter := wrap_counter s1 + 1\<rparr>;
                     s3 = s2\<lparr>total_tx := total_tx s2 + 1\<rparr>;
                     s4 = print (TotalWrapping (total_tx s3) (wrap_counter s3)) s3
                 in Some (Inr (),
                      save_transaction_status (wrap_counter s4) (unwrap_counter s4) (total_tx s4) s4))
              else Some (Inr (), s1)))
      else Some (Inr (), s))"

definition unwrap_branch ::
  "'w client \<Rightarrow> config \<Rightarrow> 'w state \<Rightarrow> ((exn + unit) \<times> 'w state) option" where
  "unwrap_branch c cfg s =
     (if unwrap_counter s < 45 \<and> total_tx s < 90 then
        (case unwrap_weth_to_eth c cfg amount_in_wei s of
           None \<Rightarrow> None
         | Some (Inl e, s1) \<Rightarrow> Some (Inl e, s1)
         | Some (Inr ok, s1) \<Rightarrow>
             (if ok then
                (let s2 = s1\<lparr>unwrap_counter := unwrap_counter s1 + 1\<rparr>;
                     s3 = s2\<lparr>total_tx := total_tx s2 + 1\<rparr>;
                     s4 = print (TotalUnwrapping (total_tx s3) (unwrap_counter s3)) s3
                 in Some (Inr (),
                      save_transaction_status (wrap_counter s4) (unwrap_counter s4) (total_tx s4) s4))
              else Some (Inr (), s1)))
      else Some (Inr (), s))"

text \<open>Lines 201-203.\<close>

definition remove_status_file :: "'w state \<Rightarrow> 'w state" where
  "remove_status_file s =
     (if fs s \<noteq> None then print StatusFileDeleted (s\<lparr>fs := None\<rparr>) else s)"

definition sleep :: "'w client \<Rightarrow> int \<Rightarrow> 'w state \<Rightarrow> 'w state" where
  "sleep c d s = s\<lparr>world := time_sleep c d (world s)\<rparr>"

text \<open>
  The result is \<open>None\<close> when the loop never ends, \<open>Some (Inl e, s)\<close> when the exception
  \<open>e\<close> leaves the script in state \<open>s\<close>, and \<open>Some (Inr (), s)\<close> when the loop is left, by
  its condition or by the \<^verbatim>\<open>break\<close>, in state \<open>s\<close>.
\<close>

partial_function (option) main_loop ::
  "'w client \<Rightarrow> config \<Rightarrow> 'w state \<Rightarrow> ((exn + unit) \<times> 'w state) option" where
  "main_loop c cfg s =
     (if total_tx s < 90 then
        (case wrap_branch c cfg s of
           None \<Rightarrow> None
         | Some (Inl e, s1) \<Rightarrow> Some (Inl e, s1)
         | Some (Inr u1, s1) \<Rightarrow>
             (case unwrap_branch c cfg s1 of
                None \<Rightarrow> None
              | Some (Inl e, s2) \<Rightarrow> Some (Inl e, s2)
              | Some (Inr u2, s2) \<Rightarrow>
                  (if total_tx s2 \<ge> 90 then Some (Inr (), remove_status_file s2)
                   else main_loop c cfg (sleep c 10 s2))))
      else Some (Inr (), s))"

declare main_loop.simps [code]

text \<open>
  The points of a run between the statements of the loop: the loop's head, the point after
  each of the two guarded attempts, the exit and the point where an exception leaves the
  script. \<open>run_point c cfg s0 p s\<close>: the run that starts the loop in \<open>s0\<close> is at \<open>p\<close> in
  state \<open>s\<close>.
\<close>

datatype point = LoopHead | AfterWrap | AfterUnwrap | Exited | Raised exn

inductive run_point :: "'w client \<Rightarrow> config \<Rightarrow> 'w state \<Rightarrow> point \<Rightarrow> 'w state \<Rightarrow> bool"
  for c :: "'w client" and cfg :: config and s0 :: "'w state" where
  start: "run_point c cfg s0 LoopHead s0"
| leave: "run_point c cfg s0 LoopHead s \<Longrightarrow> \<not> total_tx s < 90 \<Longrightarrow> run_point c cfg s0 Exited s"
| wrap_done: "run_point c cfg s0 LoopHead s \<Longrightarrow> total_tx s < 90 \<Longrightarrow>
     wrap_branch c cfg s = Some (Inr u, s1) \<Longrightarrow> run_point c cfg s0 AfterWrap s1"
| wrap_raised: "run_point c cfg s0 LoopHead s \<Longrightarrow> total_tx s < 90 \<Longrightarrow>
     wrap_branch c cfg s = Some (Inl e, s1) \<Longrightarrow> run_point c cfg s0 (Raised e) s1"
| unwrap_done: "run_point c cfg s0 AfterWrap s \<Longrightarrow>
     unwrap_branch c cfg s = Some (Inr u, s1) \<Longrightarrow> run_point c cfg s0 AfterUnwrap s1"
| unwrap_raised: "run_point c cfg s0 AfterWrap s \<Longrightarrow>
     unwrap_branch c cfg s = Some (Inl e, s1) \<Longrightarrow> run_point c cfg s0 (Raised e) s1"
| break: "run_point c cfg s0 AfterUnwrap s \<Longrightarrow> total_tx s \<ge> 90 \<Longrightarrow>
     run_point c cfg s0 Exited (remove_status_file s)"
| again: "run_point c cfg s0 AfterUnwrap s \<Longrightarrow> \<not> total_tx s \<ge> 90 \<Longrightarrow>
     run_point c cfg s0 LoopHead (sleep c 10 s)"

code_pred run_point .

subsection \<open>Properties of states\<close>

text \<open>The counters and the status file of \<open>s'\<close> are those of \<open>s\<close>.\<close>

definition same_store :: "'w state \<Rightarrow> 'w state \<Rightarrow> bool" where
  "same_store s s' =
     (wrap_counter s' = wrap_counter s \<and> unwrap_counter s' = unwrap_counter s \<and>
      total_tx s' = total_tx s \<and> fs s' = fs s)"

text \<open>The total is the sum of the two counters.\<close>

definition consistent :: "'w state \<Rightarrow> bool" where
  "consistent s = (total_tx s = wrap_counter s + unwrap_counter s)"

text \<open>The two caps and the quota.\<close>

definition within_caps :: "'w state \<Rightarrow> bool" where
  "within_caps s = (wrap_counter s \<le> 45 \<and> unwrap_counter s \<le> 45 \<and> total_tx s \<le> 90)"

text \<open>The status file holds what \<^verbatim>\<open>save_transaction_status\<close> writes for the counters of the state.\<close>

definition persisted :: "'w state \<Rightarrow> bool" where
  "persisted s =
     (fs s = Some (Json (status_doc (wrap_counter s) (unwrap_counter s) (total_tx s))))"

text \<open>The point at which a result of \<open>main_loop\<close> leaves the run.\<close>

fun end_point :: "exn + unit \<Rightarrow> point" where
  "end_point (Inl e) = Raised e"
| "end_point (Inr u) = Exited"

text \<open>
  The spec's reading of the status file: a structured record with three integer fields
  (wrap count, unwrap count, total count). A file is malformed when it is not one.
\<close>

definition int_field :: "(string \<times> json) list \<Rightarrow> string \<Rightarrow> bool" where
  "int_field items k = (case map_of items k of Some (JInt n) \<Rightarrow> True | _ \<Rightarrow> False)"

definition status_record :: "json \<Rightarrow> bool" where
  "status_record v =
     (case v of
        JObj items \<Rightarrow>
          int_field items ''wrap_counter'' \<and> int_field items ''unwrap_counter'' \<and>
          int_field items ''total_tx''
      | _ \<Rightarrow> False)"

definition malformed :: "status_file \<Rightarrow> bool" where
  "malformed f =
     (case f of Unreadable e \<Rightarrow> True | NotJson text \<Rightarrow> True | Json v \<Rightarrow> \<not> status_record v)"


subsection \<open>Example collaborators\<close>

text \<open>
  Concrete clients over a world that is just the clock, to run the definitions on: one whose
  every transaction is confirmed at once, and variants of it that revert, never answer,
  answer late, refuse the broadcast, cannot sign, cannot estimate, and hold just the fee.
  Further clients follow for single properties.
\<close>

definition example_config :: config where
  "example_config = \<lparr>my_address = ''0xA11CE'', weth_contract_address = ''0xC0FFEE'',
     private_key = ''key''\<rparr>"

definition example_client :: "int client" where
  "example_client =
     \<lparr>get_balance = (\<lambda>a w. (Inr 1000000000000000000, w)),
      balanceOf = (\<lambda>a w. (Inr 1000000000000000000, w)),
      get_transaction_count = (\<lambda>a w. (Inr 7, w)),
      estimate_gas = (\<lambda>f p w. (Inr 50000, w)),
      sign_transaction = (\<lambda>tx key. Inr ''signed''),
      send_raw_transaction = (\<lambda>raw w. (Inr ''0xabc'', w)),
      get_transaction_receipt = (\<lambda>h w. (Inr (Some [(''status'', 1)]), w)),
      time_time = (\<lambda>w. w),
      time_sleep = (\<lambda>d w. w + d)\<rparr>"

definition example_state :: "int \<Rightarrow> int \<Rightarrow> int \<Rightarrow> status_file option \<Rightarrow> int state" where
  "example_state w u t f =
     \<lparr>wrap_counter = w, unwrap_counter = u, total_tx = t, fs = f, out = [], world = 0\<rparr>"

definition reverting_client :: "int client" where
  "reverting_client =
     example_client\<lparr>get_transaction_receipt := (\<lambda>h w. (Inr (Some [(''status'', 0)]), w))\<rparr>"

definition silent_client :: "int client" where
  "silent_client = example_client\<lparr>get_transaction_receipt := (\<lambda>h w. (Inr None, w))\<rparr>"

definition flaky_client :: "int client" where
  "flaky_client =
     example_client\<lparr>get_transaction_receipt :=
       (\<lambda>h w. if w < 60 then (Inl (Exception ''read timed out''), w)
               else (Inr (Some [(''status'', 1)]), w))\<rparr>"

definition offline_client :: "int client" where
  "offline_client =
     example_client\<lparr>send_raw_transaction :=
       (\<lambda>raw w. (Inl (Exception ''connection refused''), w))\<rparr>"

definition keyless_client :: "int client" where
  "keyless_client =
     example_client\<lparr>sign_transaction := (\<lambda>tx key. Inl (Exception ''invalid private key''))\<rparr>"

definition unpriced_client :: "int client" where
  "unpriced_client =
     example_client\<lparr>estimate_gas := (\<lambda>f p w. (Inl (Exception ''execution reverted''), w))\<rparr>"

definition thin_client :: "int client" where
  "thin_client = example_client\<lparr>get_balance := (\<lambda>a w. (Inr 1250000000000, w))\<rparr>"


text \<open>
  A client that answers the transaction count of the account \<open>0xA11CE\<close> only, with a
  count that grows with the clock, and that signs nothing but the expected transaction with
  the key of the configuration.
\<close>

definition ledger_client :: "transaction \<Rightarrow> int client" where
  "ledger_client expected =
     example_client
       \<lparr>get_transaction_count :=
          (\<lambda>a w. (if a = ''0xA11CE'' then Inr (7 + w) else Inl (Exception ''unknown account''), w)),
        sign_transaction :=
          (\<lambda>tx key. if tx = expected \<and> key = ''key'' then Inr ''signed''
                     else Inl (Exception ''unexpected payload''))\<rparr>"

definition example_wrap_payload :: "int \<Rightarrow> transaction" where
  "example_wrap_payload nonce =
     \<lparr>tx_to = ''0xC0FFEE'', tx_chainId = 167000, tx_gas = 50000,
      tx_maxFeePerGas = 25000000, tx_maxPriorityFeePerGas = 25000000,
      tx_nonce = nonce, tx_value = Some 400000000000000000, tx_data = ''0xd0e30db0''\<rparr>"

definition example_unwrap_payload :: "int \<Rightarrow> transaction" where
  "example_unwrap_payload nonce =
     \<lparr>tx_to = ''0xC0FFEE'', tx_chainId = 167000, tx_gas = 50000,
      tx_maxFeePerGas = 25000000, tx_maxPriorityFeePerGas = 25000000,
      tx_nonce = nonce, tx_value = None,
      tx_data =
        ''0x2e1a7d4d000000000000000000000000000000000000000000000000058d15e176280000''\<rparr>"

section \<open>Frame: what the operations leave alone\<close>

lemma same_store_refl [simp]: "same_store s s"
  by (simp add: same_store_def)

lemma same_store_trans: "same_store s s1 \<Longrightarrow> same_store s1 s2 \<Longrightarrow> same_store s s2"
  by (simp add: same_store_def)

lemma same_store_print [simp]: "same_store s (print m s') = same_store s s'"
  by (simp add: same_store_def print_def)

lemma same_store_world [simp]: "same_store s (s'\<lparr>world := w\<rparr>) = same_store s s'"
  by (simp add: same_store_def)

lemma same_store_print_left [simp]: "same_store (print m s) s' = same_store s s'"
  by (simp add: same_store_def print_def)

lemma same_store_world_left [simp]: "same_store (s\<lparr>world := w\<rparr>) s' = same_store s s'"
  by (simp add: same_store_def)

lemma has_sufficient_balance_store:
  "has_sufficient_balance c cfg amount is_wrap s = (b, s') \<Longrightarrow> same_store s s'"
  by (auto simp: has_sufficient_balance_def Let_def split: prod.splits sum.splits if_splits)

lemma wait_loop_store:
  assumes "wait_loop c h start_time timeout s = Some r"
  shows "same_store s (snd r)"
proof (rule wait_loop.raw_induct [OF _ assms])
  fix f and c :: "'w client" and h start_time timeout and s :: "'w state" and r
  assume IH: "\<And>c h start_time timeout s r.
      f c h start_time timeout s = Some r \<Longrightarrow> same_store s (snd r)"
    and step: "(if time_time c (world s) - start_time < timeout then
        (case get_transaction_receipt c h (world s) of
           (r, w1) \<Rightarrow>
             (case poll_verdict r of
                Some True \<Rightarrow> Some (True, print (Confirmed h) (s\<lparr>world := w1\<rparr>))
              | Some False \<Rightarrow> Some (False, print (Failed h) (s\<lparr>world := w1\<rparr>))
              | None \<Rightarrow> f c h start_time timeout (s\<lparr>world := time_sleep c 30 w1\<rparr>)))
      else Some (False, print (Timeout h) s)) = Some r"
  from step show "same_store s (snd r)"
    by (auto split: if_splits prod.splits option.splits bool.splits dest!: IH)
qed

lemma wait_for_confirmation_store:
  "wait_for_confirmation c h timeout s = Some (b, s') \<Longrightarrow> same_store s s'"
  using wait_loop_store [of c h _ timeout s "(b, s')"] by (simp add: wait_for_confirmation_def)

lemma sign_and_send_store:
  "sign_and_send c cfg sent error tx s = Some (r, s') \<Longrightarrow> same_store s s'"
  by (auto simp: sign_and_send_def split: sum.splits prod.splits option.splits
      dest!: wait_for_confirmation_store)

lemma wrap_eth_to_weth_store:
  "wrap_eth_to_weth c cfg amount s = Some (r, s') \<Longrightarrow> same_store s s'"
  by (auto simp: wrap_eth_to_weth_def split: sum.splits prod.splits bool.splits
      dest!: sign_and_send_store has_sufficient_balance_store intro: same_store_trans)

lemma unwrap_weth_to_eth_store:
  "unwrap_weth_to_eth c cfg amount s = Some (r, s') \<Longrightarrow> same_store s s'"
  by (auto simp: unwrap_weth_to_eth_def split: sum.splits prod.splits bool.splits
      dest!: sign_and_send_store has_sufficient_balance_store intro: same_store_trans)

lemma wrap_branch_done:
  assumes "wrap_branch c cfg s = Some (Inr u, s1)"
  shows "same_store s s1 \<or>
         (wrap_counter s < 45 \<and> total_tx s < 90 \<and> wrap_counter s1 = wrap_counter s + 1 \<and>
          unwrap_counter s1 = unwrap_counter s \<and> total_tx s1 = total_tx s + 1 \<and> persisted s1)"
  using assms
  by (auto simp: wrap_branch_def Let_def print_def save_transaction_status_def persisted_def
        same_store_def
      split: if_splits option.splits prod.splits sum.splits dest!: wrap_eth_to_weth_store)

lemma wrap_branch_raised:
  "wrap_branch c cfg s = Some (Inl e, s1) \<Longrightarrow> same_store s s1"
  by (auto simp: wrap_branch_def Let_def
      split: if_splits option.splits prod.splits sum.splits dest!: wrap_eth_to_weth_store)

lemma unwrap_branch_done:
  assumes "unwrap_branch c cfg s = Some (Inr u, s1)"
  shows "same_store s s1 \<or>
         (unwrap_counter s < 45 \<and> total_tx s < 90 \<and> unwrap_counter s1 = unwrap_counter s + 1 \<and>
          wrap_counter s1 = wrap_counter s \<and> total_tx s1 = total_tx s + 1 \<and> persisted s1)"
  using assms
  by (auto simp: unwrap_branch_def Let_def print_def save_transaction_status_def persisted_def
        same_store_def
      split: if_splits option.splits prod.splits sum.splits dest!: unwrap_weth_to_eth_store)

lemma unwrap_branch_raised:
  "unwrap_branch c cfg s = Some (Inl e, s1) \<Longrightarrow> same_store s s1"
  by (auto simp: unwrap_branch_def Let_def
      split: if_splits option.splits prod.splits sum.splits dest!: unwrap_weth_to_eth_store)

lemma same_store_sleep [simp]: "same_store s (sleep c d s') = same_store s s'"
  by (simp add: same_store_def sleep_def)

lemma same_store_consistent: "same_store s s' \<Longrightarrow> consistent s' = consistent s"
  by (simp add: same_store_def consistent_def)

lemma same_store_within_caps: "same_store s s' \<Longrightarrow> within_caps s' = within_caps s"
  by (simp add: same_store_def within_caps_def)

lemma same_store_persisted: "same_store s s' \<Longrightarrow> persisted s' = persisted s"
  by (simp add: same_store_def persisted_def)

lemma remove_status_file_counters [simp]:
  "wrap_counter (remove_status_file s) = wrap_counter s"
  "unwrap_counter (remove_status_file s) = unwrap_counter s"
  "total_tx (remove_status_file s) = total_tx s"
  "fs (remove_status_file s) = None"
  by (simp_all add: remove_status_file_def print_def)

text \<open>
  Claim C1. In a run of the main loop that starts in a state where the total is the sum of
  the two counters, the total is the sum of the two counters at every point of the run, and
  the status file is either still the one the run started with, or removed at the exit, or
  exactly what the last save wrote: the counters of the state, whose total is their sum.
\<close>

theorem sum_invariant:
  assumes "consistent s0" and "run_point c cfg s0 p s"
  shows "consistent s \<and> (fs s = fs s0 \<or> (p = Exited \<and> fs s = None) \<or> persisted s)"
  using assms(2)
proof (induction rule: run_point.induct)
  case start
  then show ?case using assms(1) by simp
next
  case (leave s)
  then show ?case by auto
next
  case (wrap_done s u s1)
  from wrap_branch_done [OF wrap_done.hyps(3)] wrap_done.IH show ?case
    by (auto simp: same_store_def consistent_def persisted_def)
next
  case (wrap_raised s e s1)
  from wrap_branch_raised [OF wrap_raised.hyps(3)] wrap_raised.IH show ?case
    by (auto simp: same_store_def consistent_def persisted_def)
next
  case (unwrap_done s u s1)
  from unwrap_branch_done [OF unwrap_done.hyps(2)] unwrap_done.IH show ?case
    by (auto simp: same_store_def consistent_def persisted_def)
next
  case (unwrap_raised s e s1)
  from unwrap_branch_raised [OF unwrap_raised.hyps(2)] unwrap_raised.IH show ?case
    by (auto simp: same_store_def consistent_def persisted_def)
next
  case (break s)
  then show ?case by (simp add: consistent_def)
next
  case (again s)
  then show ?case by (auto simp: consistent_def persisted_def sleep_def)
qed

text \<open>
  Claim C2. In a run of the main loop that starts with both counters at most 45 and the
  total at most 90, the counters are at most 45 and the total at most 90 at every point of
  the run.
\<close>

theorem caps_invariant:
  assumes "within_caps s0" and "run_point c cfg s0 p s"
  shows "within_caps s"
  using assms(2)
proof (induction rule: run_point.induct)
  case start
  then show ?case using assms(1) by simp
next
  case (wrap_done s u s1)
  from wrap_branch_done [OF wrap_done.hyps(3)] wrap_done.IH show ?case
    by (auto simp: same_store_def within_caps_def)
next
  case (wrap_raised s e s1)
  from wrap_branch_raised [OF wrap_raised.hyps(3)] wrap_raised.IH show ?case
    by (auto simp: same_store_def within_caps_def)
next
  case (unwrap_done s u s1)
  from unwrap_branch_done [OF unwrap_done.hyps(2)] unwrap_done.IH show ?case
    by (auto simp: same_store_def within_caps_def)
next
  case (unwrap_raised s e s1)
  from unwrap_branch_raised [OF unwrap_raised.hyps(2)] unwrap_raised.IH show ?case
    by (auto simp: same_store_def within_caps_def)
qed (auto simp: within_caps_def sleep_def)

lemma main_loop_run_point_aux:
  assumes "main_loop c cfg s = Some r"
  shows "\<forall>s0. run_point c cfg s0 LoopHead s \<longrightarrow> run_point c cfg s0 (end_point (fst r)) (snd r)"
proof (rule main_loop.raw_induct [OF _ assms])
  fix f and c :: "'w client" and cfg and s :: "'w state" and r
  assume IH: "\<And>c cfg s r. f c cfg s = Some r \<Longrightarrow>
      \<forall>s0. run_point c cfg s0 LoopHead s \<longrightarrow> run_point c cfg s0 (end_point (fst r)) (snd r)"
    and step: "(if total_tx s < 90 then
        (case wrap_branch c cfg s of
           None \<Rightarrow> None
         | Some (Inl e, s1) \<Rightarrow> Some (Inl e, s1)
         | Some (Inr u1, s1) \<Rightarrow>
             (case unwrap_branch c cfg s1 of
                None \<Rightarrow> None
              | Some (Inl e, s2) \<Rightarrow> Some (Inl e, s2)
              | Some (Inr u2, s2) \<Rightarrow>
                  (if total_tx s2 \<ge> 90 then Some (Inr (), remove_status_file s2)
                   else f c cfg (sleep c 10 s2))))
      else Some (Inr (), s)) = Some r"
  show "\<forall>s0. run_point c cfg s0 LoopHead s \<longrightarrow> run_point c cfg s0 (end_point (fst r)) (snd r)"
  proof (intro allI impI)
    fix s0
    assume head: "run_point c cfg s0 LoopHead s"
    show "run_point c cfg s0 (end_point (fst r)) (snd r)"
    proof (cases "total_tx s < 90")
      case False
      with step head show ?thesis by (auto intro: run_point.leave)
    next
      case True
      show ?thesis
      proof (cases "wrap_branch c cfg s")
        case None
        with step True show ?thesis by simp
      next
        case (Some a)
        obtain r1 s1 where a: "a = (r1, s1)" by (cases a)
        show ?thesis
        proof (cases r1)
          case (Inl e)
          with step True Some a head show ?thesis
            by (auto intro: run_point.wrap_raised)
        next
          case (Inr u1)
          with Some a True head have aw: "run_point c cfg s0 AfterWrap s1"
            by (auto intro: run_point.wrap_done)
          show ?thesis
          proof (cases "unwrap_branch c cfg s1")
            case None
            with step True Some a Inr show ?thesis by simp
          next
            case (Some b)
            obtain r2 s2 where b: "b = (r2, s2)" by (cases b)
            show ?thesis
            proof (cases r2)
              case (Inl e)
              with step True \<open>wrap_branch c cfg s = Some a\<close> a \<open>r1 = Inr u1\<close> Some b aw
              show ?thesis by (auto intro: run_point.unwrap_raised)
            next
              case (Inr u2)
              with Some b aw have au: "run_point c cfg s0 AfterUnwrap s2"
                by (auto intro: run_point.unwrap_done)
              show ?thesis
              proof (cases "total_tx s2 \<ge> 90")
                case True
                with step \<open>total_tx s < 90\<close> \<open>wrap_branch c cfg s = Some a\<close> a \<open>r1 = Inr u1\<close>
                  Some b Inr au
                show ?thesis by (auto intro: run_point.break)
              next
                case False
                with au have "run_point c cfg s0 LoopHead (sleep c 10 s2)"
                  by (auto intro: run_point.again)
                moreover from False step \<open>total_tx s < 90\<close> \<open>wrap_branch c cfg s = Some a\<close> a
                  \<open>r1 = Inr u1\<close> Some b Inr
                have "f c cfg (sleep c 10 s2) = Some r" by simp
                ultimately show ?thesis using IH by blast
              qed
            qed
          qed
        qed
      qed
    qed
  qed
qed

lemma main_loop_run_point:
  "main_loop c cfg s0 = Some (r, s) \<Longrightarrow> run_point c cfg s0 (end_point r) s"
  using main_loop_run_point_aux [of c cfg s0 "(r, s)"] by (auto intro: run_point.start)

text \<open>The equations that run the definitions on the example collaborators.\<close>

lemmas run_defs = wrap_branch_def unwrap_branch_def
  wrap_eth_to_weth_def unwrap_weth_to_eth_def has_sufficient_balance_def sign_and_send_def
  wait_for_confirmation_def wait_loop.simps poll_verdict_def print_def get_next_nonce_def
  check_eth_balance_def check_weth_balance_def deposit_params_def withdraw_params_def
  save_transaction_status_def Let_def remove_status_file_def sleep_def
  wrap_transaction_def unwrap_transaction_def to_bytes_def amount_in_wei_def
  max_priority_fee_per_gas_def max_fee_per_gas_def

lemmas example_defs = example_config_def example_client_def example_state_def
  reverting_client_def silent_client_def flaky_client_def offline_client_def
  keyless_client_def unpriced_client_def thin_client_def

theorem sum_invariant_witness:
  "consistent (example_state 44 44 88 None) \<and>
   run_point example_client example_config (example_state 44 44 88 None) AfterWrap
     \<lparr>wrap_counter = 45, unwrap_counter = 44, total_tx = 89,
      fs = Some (Json (status_doc 45 44 89)),
      out = [WrapSent ''0xabc'', Confirmed ''0xabc'', TotalWrapping 89 45], world = 0\<rparr> \<and>
   consistent \<lparr>wrap_counter = 45, unwrap_counter = 44, total_tx = 89,
      fs = Some (Json (status_doc 45 44 89)),
      out = [WrapSent ''0xabc'', Confirmed ''0xabc'', TotalWrapping 89 45], world = 0::int\<rparr> \<and>
   persisted \<lparr>wrap_counter = 45, unwrap_counter = 44, total_tx = 89,
      fs = Some (Json (status_doc 45 44 89)),
      out = [WrapSent ''0xabc'', Confirmed ''0xabc'', TotalWrapping 89 45], world = 0::int\<rparr>"
proof -
  let ?s0 = "example_state 44 44 88 None"
  let ?s1 = "\<lparr>wrap_counter = 45, unwrap_counter = 44, total_tx = 89,
      fs = Some (Json (status_doc 45 44 89)),
      out = [WrapSent ''0xabc'', Confirmed ''0xabc'', TotalWrapping 89 45], world = 0::int\<rparr>"
  have c0: "consistent ?s0" by (simp add: consistent_def example_state_def)
  have "wrap_branch example_client example_config ?s0 = Some (Inr (), ?s1)"
    by (simp add: run_defs example_defs)
  moreover have "total_tx ?s0 < 90" by (simp add: example_state_def)
  ultimately have rp: "run_point example_client example_config ?s0 AfterWrap ?s1"
    using run_point.start run_point.wrap_done by blast
  from sum_invariant [OF c0 rp] c0 rp show ?thesis
    by (simp add: example_state_def persisted_def)
qed

theorem caps_invariant_witness:
  "within_caps (example_state 45 44 89 None) \<and>
   run_point example_client example_config (example_state 45 44 89 None) Exited
     \<lparr>wrap_counter = 45, unwrap_counter = 45, total_tx = 90, fs = None,
      out = [UnwrapSent ''0xabc'', Confirmed ''0xabc'', TotalUnwrapping 90 45,
             StatusFileDeleted], world = 0\<rparr> \<and>
   within_caps \<lparr>wrap_counter = 45, unwrap_counter = 45, total_tx = 90, fs = None,
      out = [UnwrapSent ''0xabc'', Confirmed ''0xabc'', TotalUnwrapping 90 45,
             StatusFileDeleted], world = 0::int\<rparr>"
proof -
  let ?s0 = "example_state 45 44 89 None"
  let ?s1 = "\<lparr>wrap_counter = 45, unwrap_counter = 45, total_tx = 90, fs = None,
      out = [UnwrapSent ''0xabc'', Confirmed ''0xabc'', TotalUnwrapping 90 45,
             StatusFileDeleted], world = 0::int\<rparr>"
  have c0: "within_caps ?s0" by (simp add: within_caps_def example_state_def)
  have "main_loop example_client example_config ?s0 = Some (Inr (), ?s1)"
    by (simp add: main_loop.simps run_defs example_defs)
  from main_loop_run_point [OF this]
  have rp: "run_point example_client example_config ?s0 Exited ?s1" by simp
  from caps_invariant [OF c0 rp] c0 rp show ?thesis by simp
qed

section \<open>Watcher\<close>

lemma wait_loop_report:
  assumes "wait_loop c h start_time timeout s = Some r"
  shows "\<exists>m. out (snd r) = out s @ [m] \<and>
     ((fst r \<and> m = Confirmed h) \<or> (\<not> fst r \<and> m = Failed h) \<or> (\<not> fst r \<and> m = Timeout h))"
proof (rule wait_loop.raw_induct [OF _ assms])
  fix f and c :: "'w client" and h start_time timeout and s :: "'w state" and r
  assume IH: "\<And>c h start_time timeout s r.
      f c h start_time timeout s = Some r \<Longrightarrow>
      \<exists>m. out (snd r) = out s @ [m] \<and>
        ((fst r \<and> m = Confirmed h) \<or> (\<not> fst r \<and> m = Failed h) \<or> (\<not> fst r \<and> m = Timeout h))"
    and step: "(if time_time c (world s) - start_time < timeout then
        (case get_transaction_receipt c h (world s) of
           (r, w1) \<Rightarrow>
             (case poll_verdict r of
                Some True \<Rightarrow> Some (True, print (Confirmed h) (s\<lparr>world := w1\<rparr>))
              | Some False \<Rightarrow> Some (False, print (Failed h) (s\<lparr>world := w1\<rparr>))
              | None \<Rightarrow> f c h start_time timeout (s\<lparr>world := time_sleep c 30 w1\<rparr>)))
      else Some (False, print (Timeout h) s)) = Some r"
  from step show "\<exists>m. out (snd r) = out s @ [m] \<and>
     ((fst r \<and> m = Confirmed h) \<or> (\<not> fst r \<and> m = Failed h) \<or> (\<not> fst r \<and> m = Timeout h))"
    by (auto simp: print_def split: if_splits prod.splits option.splits bool.splits dest!: IH)
qed




lemma poll_verdict_unresolved [simp]:
  "poll_verdict (Inl e) = None" "poll_verdict (Inr None) = None"
  by (simp_all add: poll_verdict_def)




section \<open>Balance gate\<close>



section \<open>Payloads\<close>

lemma length_big_endian [simp]: "length (big_endian k n) = k"
  by (induction k arbitrary: n) simp_all

lemma big_endian_bytes: "b \<in> set (big_endian k n) \<Longrightarrow> b < 256"
  by (induction k arbitrary: n) auto

lemma big_endian_numeral:
  "big_endian (numeral k) n = big_endian (pred_numeral k) (n div 256) @ [n mod 256]"
proof -
  have "numeral k = Suc (pred_numeral k)" by (rule numeral_eq_Suc)
  then show ?thesis by (simp only: big_endian.simps)
qed

lemma from_bytes_snoc: "from_bytes (bs @ [b]) = from_bytes bs * 256 + b"
  by (simp add: from_bytes_def)

lemma from_bytes_big_endian: "from_bytes (big_endian k n) = n mod 256 ^ k"
proof (induction k arbitrary: n)
  case 0
  then show ?case by (simp add: from_bytes_def)
next
  case (Suc k)
  have "n mod (256 * 256 ^ k) = 256 * (n div 256 mod 256 ^ k) + n mod 256"
    by (rule mod_mult2_eq)
  with Suc show ?case by (simp add: from_bytes_snoc)
qed

lemma to_bytes_32:
  assumes "0 \<le> amount" and "amount < 2 ^ 256"
  shows "\<exists>bs. to_bytes amount 32 = Inr bs \<and> length bs = 32 \<and> (\<forall>b\<in>set bs. b < 256) \<and>
     int (from_bytes bs) = amount"
proof -
  from assms(2) have small: "amount < 256 ^ 32" by simp
  with assms(1) have "nat amount < 256 ^ 32" by (simp add: nat_less_iff)
  then have "nat amount mod 256 ^ 32 = nat amount" by (rule mod_less)
  then have "int (from_bytes (big_endian 32 (nat amount))) = amount"
    using assms(1) by (simp only: from_bytes_big_endian int_nat_eq if_True)
  moreover from assms(1) small have "to_bytes amount 32 = Inr (big_endian 32 (nat amount))"
    by (simp only: to_bytes_def) simp
  ultimately show ?thesis
    by (auto simp only: length_big_endian dest: big_endian_bytes)
qed

lemma deposit_selector: "hex [0xd0, 0xe3, 0x0d, 0xb0] = ''d0e30db0''"
  by (simp add: hex_def hex_digit_def)

lemma withdraw_selector: "hex [0x2e, 0x1a, 0x7d, 0x4d] = ''2e1a7d4d''"
  by (simp add: hex_def hex_digit_def)

text \<open>
  Claim C8. Once the gate has passed, the attempt asks the client for the transaction count
  of the account, at the world the gate left, estimates the gas, and signs and sends exactly
  this transaction: to the wrapped-token contract, with the count just returned as nonce.
  A wrap carries the amount as value and the four bytes \<open>d0e30db0\<close> as data; an unwrap
  carries no value, and its data is the four bytes \<open>2e1a7d4d\<close> followed by the 32 bytes
  that \<^verbatim>\<open>to_bytes(32, 'big')\<close> gives for the amount, whose big-endian reading is the
  amount. The transaction is signed with the private key, and what the signing returns is
  what is broadcast.
\<close>

theorem payloads:
  "(has_sufficient_balance c cfg amount True s = (True, s1) \<and>
    get_transaction_count c (my_address cfg) (world s1) = (Inr nonce, w2) \<and>
    estimate_gas c (Deposit amount) (deposit_params cfg amount) w2 = (Inr gas_estimate, w3) \<longrightarrow>
      wrap_eth_to_weth c cfg amount s =
        sign_and_send c cfg WrapSent ErrorSendingWrap
          \<lparr>tx_to = weth_contract_address cfg, tx_chainId = 167000, tx_gas = gas_estimate,
           tx_maxFeePerGas = max_fee_per_gas,
           tx_maxPriorityFeePerGas = max_priority_fee_per_gas,
           tx_nonce = nonce, tx_value = Some amount,
           tx_data = ''0x'' @ hex [0xd0, 0xe3, 0x0d, 0xb0]\<rparr>
          (s1\<lparr>world := w3\<rparr>)) \<and>
   (has_sufficient_balance c cfg amount False s = (True, s1) \<and>
    get_transaction_count c (my_address cfg) (world s1) = (Inr nonce, w2) \<and>
    estimate_gas c (Withdraw amount) (withdraw_params cfg) w2 = (Inr gas_estimate, w3) \<and>
    0 \<le> amount \<and> amount < 2 ^ 256 \<longrightarrow>
      (\<exists>bs. to_bytes amount 32 = Inr bs \<and> length bs = 32 \<and> (\<forall>b\<in>set bs. b < 256) \<and>
         int (from_bytes bs) = amount \<and>
         unwrap_weth_to_eth c cfg amount s =
           sign_and_send c cfg UnwrapSent ErrorSendingUnwrap
             \<lparr>tx_to = weth_contract_address cfg, tx_chainId = 167000, tx_gas = gas_estimate,
              tx_maxFeePerGas = max_fee_per_gas,
              tx_maxPriorityFeePerGas = max_priority_fee_per_gas,
              tx_nonce = nonce, tx_value = None,
              tx_data = ''0x'' @ hex [0x2e, 0x1a, 0x7d, 0x4d] @ hex bs\<rparr>
             (s1\<lparr>world := w3\<rparr>))) \<and>
   (sign_transaction c tx (private_key cfg) = Inr raw \<longrightarrow>
      sign_and_send c cfg sent error tx s =
        (case send_raw_transaction c raw (world s) of
           (Inl e, w1) \<Rightarrow> Some (Inr False, print (error e) (s\<lparr>world := w1\<rparr>))
         | (Inr h, w1) \<Rightarrow>
             (case wait_for_confirmation c h 300 (print (sent h) (s\<lparr>world := w1\<rparr>)) of
                None \<Rightarrow> None
              | Some (b, s1) \<Rightarrow> Some (Inr b, s1))))"
proof -
  have 1: "wrap_eth_to_weth c cfg amount s =
        sign_and_send c cfg WrapSent ErrorSendingWrap
          \<lparr>tx_to = weth_contract_address cfg, tx_chainId = 167000, tx_gas = gas_estimate,
           tx_maxFeePerGas = max_fee_per_gas,
           tx_maxPriorityFeePerGas = max_priority_fee_per_gas,
           tx_nonce = nonce, tx_value = Some amount,
           tx_data = ''0x'' @ hex [0xd0, 0xe3, 0x0d, 0xb0]\<rparr>
          (s1\<lparr>world := w3\<rparr>)"
    if "has_sufficient_balance c cfg amount True s = (True, s1) \<and>
      get_transaction_count c (my_address cfg) (world s1) = (Inr nonce, w2) \<and>
      estimate_gas c (Deposit amount) (deposit_params cfg amount) w2 = (Inr gas_estimate, w3)"
    using that
    by (simp add: wrap_eth_to_weth_def get_next_nonce_def wrap_transaction_def deposit_selector)
  have 2: "\<exists>bs. to_bytes amount 32 = Inr bs \<and> length bs = 32 \<and> (\<forall>b\<in>set bs. b < 256) \<and>
         int (from_bytes bs) = amount \<and>
         unwrap_weth_to_eth c cfg amount s =
           sign_and_send c cfg UnwrapSent ErrorSendingUnwrap
             \<lparr>tx_to = weth_contract_address cfg, tx_chainId = 167000, tx_gas = gas_estimate,
              tx_maxFeePerGas = max_fee_per_gas,
              tx_maxPriorityFeePerGas = max_priority_fee_per_gas,
              tx_nonce = nonce, tx_value = None,
              tx_data = ''0x'' @ hex [0x2e, 0x1a, 0x7d, 0x4d] @ hex bs\<rparr>
             (s1\<lparr>world := w3\<rparr>)"
    if a: "has_sufficient_balance c cfg amount False s = (True, s1) \<and>
      get_transaction_count c (my_address cfg) (world s1) = (Inr nonce, w2) \<and>
      estimate_gas c (Withdraw amount) (withdraw_params cfg) w2 = (Inr gas_estimate, w3) \<and>
      0 \<le> amount \<and> amount < 2 ^ 256"
  proof -
    from a obtain bs where bs: "to_bytes amount 32 = Inr bs" "length bs = 32"
      "\<forall>b\<in>set bs. b < 256" "int (from_bytes bs) = amount"
      using to_bytes_32 by blast
    from a bs(1) have "unwrap_weth_to_eth c cfg amount s =
        sign_and_send c cfg UnwrapSent ErrorSendingUnwrap
          \<lparr>tx_to = weth_contract_address cfg, tx_chainId = 167000, tx_gas = gas_estimate,
           tx_maxFeePerGas = max_fee_per_gas,
           tx_maxPriorityFeePerGas = max_priority_fee_per_gas,
           tx_nonce = nonce, tx_value = None,
           tx_data = ''0x'' @ hex [0x2e, 0x1a, 0x7d, 0x4d] @ hex bs\<rparr>
          (s1\<lparr>world := w3\<rparr>)"
      by (simp add: unwrap_weth_to_eth_def get_next_nonce_def unwrap_transaction_def
          withdraw_selector)
    with bs show ?thesis by blast
  qed
  have 3: "sign_and_send c cfg sent error tx s =
        (case send_raw_transaction c raw (world s) of
           (Inl e, w1) \<Rightarrow> Some (Inr False, print (error e) (s\<lparr>world := w1\<rparr>))
         | (Inr h, w1) \<Rightarrow>
             (case wait_for_confirmation c h 300 (print (sent h) (s\<lparr>world := w1\<rparr>)) of
                None \<Rightarrow> None
              | Some (b, s1) \<Rightarrow> Some (Inr b, s1)))"
    if "sign_transaction c tx (private_key cfg) = Inr raw"
    using that by (simp add: sign_and_send_def)
  from 1 2 3 show ?thesis by blast
qed

lemma amount_bytes:
  "to_bytes amount_in_wei 32 =
     Inr [0, 0, 0, 0, 0, 0, 0, 0, 0, 0, 0, 0, 0, 0, 0, 0, 0, 0, 0, 0, 0, 0, 0, 0,
          5, 141, 21, 225, 118, 40, 0, 0]"
  by (simp add: to_bytes_def amount_in_wei_def big_endian_numeral)

theorem payloads_witness:
  "wrap_eth_to_weth (ledger_client (example_wrap_payload 7)) example_config amount_in_wei
       (example_state 0 0 0 None) =
     Some (Inr True, (example_state 0 0 0 None)
       \<lparr>out := [WrapSent ''0xabc'', Confirmed ''0xabc'']\<rparr>) \<and>
   wrap_eth_to_weth (ledger_client (example_wrap_payload 47)) example_config amount_in_wei
       ((example_state 1 0 1 None)\<lparr>world := 40\<rparr>) =
     Some (Inr True, (example_state 1 0 1 None)
       \<lparr>out := [WrapSent ''0xabc'', Confirmed ''0xabc''], world := 40\<rparr>) \<and>
   wrap_eth_to_weth (ledger_client (example_wrap_payload 7)) example_config amount_in_wei
       ((example_state 1 0 1 None)\<lparr>world := 40\<rparr>) =
     Some (Inl (Exception ''unexpected payload''), (example_state 1 0 1 None)\<lparr>world := 40\<rparr>) \<and>
   unwrap_weth_to_eth (ledger_client (example_unwrap_payload 7)) example_config amount_in_wei
       (example_state 0 0 0 None) =
     Some (Inr True, (example_state 0 0 0 None)
       \<lparr>out := [UnwrapSent ''0xabc'', Confirmed ''0xabc'']\<rparr>)"
proof -
  let ?s = "example_state 0 0 0 None"
  let ?t = "(example_state 1 0 1 None)\<lparr>world := 40\<rparr>"
  let ?w7 = "ledger_client (example_wrap_payload 7)"
  let ?w47 = "ledger_client (example_wrap_payload 47)"
  let ?u7 = "ledger_client (example_unwrap_payload 7)"
  have cfg: "my_address example_config = ''0xA11CE''"
    "weth_contract_address example_config = ''0xC0FFEE''"
    "private_key example_config = ''key''"
    by (simp_all add: example_config_def)
  have fees: "max_fee_per_gas = 25000000" "max_priority_fee_per_gas = 25000000"
    by (simp_all add: max_fee_per_gas_def max_priority_fee_per_gas_def)
  have r: "0 \<le> amount_in_wei \<and> amount_in_wei < 2 ^ 256" by (simp add: amount_in_wei_def)
  have hx: "hex [0, 0, 0, 0, 0, 0, 0, 0, 0, 0, 0, 0, 0, 0, 0, 0, 0, 0, 0, 0, 0, 0, 0, 0,
          5, 141, 21, 225, 118, 40, 0, 0] =
      ''000000000000000000000000000000000000000000000000058d15e176280000''"
    by (simp add: hex_def hex_digit_def)
  have g1: "has_sufficient_balance ?w7 example_config amount_in_wei True ?s = (True, ?s)"
    "has_sufficient_balance ?w47 example_config amount_in_wei True ?t = (True, ?t)"
    "has_sufficient_balance ?w7 example_config amount_in_wei True ?t = (True, ?t)"
    "has_sufficient_balance ?u7 example_config amount_in_wei False ?s = (True, ?s)"
    by (simp_all add: run_defs example_defs ledger_client_def)
  have n: "get_transaction_count ?w7 (my_address example_config) (world ?s) = (Inr 7, 0)"
    "get_transaction_count ?w47 (my_address example_config) (world ?t) = (Inr 47, 40)"
    "get_transaction_count ?w7 (my_address example_config) (world ?t) = (Inr 47, 40)"
    "get_transaction_count ?u7 (my_address example_config) (world ?s) = (Inr 7, 0)"
    by (simp_all add: example_defs ledger_client_def)
  have e: "estimate_gas ?w7 (Deposit amount_in_wei)
        (deposit_params example_config amount_in_wei) 0 = (Inr 50000, 0)"
    "estimate_gas ?w47 (Deposit amount_in_wei)
        (deposit_params example_config amount_in_wei) 40 = (Inr 50000, 40)"
    "estimate_gas ?w7 (Deposit amount_in_wei)
        (deposit_params example_config amount_in_wei) 40 = (Inr 50000, 40)"
    "estimate_gas ?u7 (Withdraw amount_in_wei) (withdraw_params example_config) 0 =
        (Inr 50000, 0)"
    by (simp_all add: example_defs ledger_client_def)
  have w: "?s\<lparr>world := 0\<rparr> = ?s" "?t\<lparr>world := 40\<rparr> = ?t" by (simp_all add: example_state_def)
  from payloads [where c = ?w7 and cfg = example_config and amount = amount_in_wei and s = ?s
      and ?s1.0 = ?s and nonce = 7 and ?w2.0 = 0 and gas_estimate = 50000 and ?w3.0 = 0]
    g1(1) n(1) e(1)
  have "wrap_eth_to_weth ?w7 example_config amount_in_wei ?s =
      sign_and_send ?w7 example_config WrapSent ErrorSendingWrap
        (example_wrap_payload 7) ?s"
    by (simp add: w cfg fees deposit_selector example_wrap_payload_def amount_in_wei_def)
  then have 1: "wrap_eth_to_weth ?w7 example_config amount_in_wei ?s =
      Some (Inr True, ?s\<lparr>out := [WrapSent ''0xabc'', Confirmed ''0xabc'']\<rparr>)"
    by (simp add: run_defs example_defs ledger_client_def)
  from payloads [where c = ?w47 and cfg = example_config and amount = amount_in_wei and s = ?t
      and ?s1.0 = ?t and nonce = 47 and ?w2.0 = 40 and gas_estimate = 50000 and ?w3.0 = 40]
    g1(2) n(2) e(2)
  have "wrap_eth_to_weth ?w47 example_config amount_in_wei ?t =
      sign_and_send ?w47 example_config WrapSent ErrorSendingWrap
        (example_wrap_payload 47) ?t"
    by (simp add: w cfg fees deposit_selector example_wrap_payload_def amount_in_wei_def)
  then have 2: "wrap_eth_to_weth ?w47 example_config amount_in_wei ?t =
      Some (Inr True, (example_state 1 0 1 None)
        \<lparr>out := [WrapSent ''0xabc'', Confirmed ''0xabc''], world := 40\<rparr>)"
    by (simp add: run_defs example_defs ledger_client_def)
  from payloads [where c = ?w7 and cfg = example_config and amount = amount_in_wei and s = ?t
      and ?s1.0 = ?t and nonce = 47 and ?w2.0 = 40 and gas_estimate = 50000 and ?w3.0 = 40]
    g1(3) n(3) e(3)
  have "wrap_eth_to_weth ?w7 example_config amount_in_wei ?t =
      sign_and_send ?w7 example_config WrapSent ErrorSendingWrap
        (example_wrap_payload 47) ?t"
    by (simp add: w cfg fees deposit_selector example_wrap_payload_def amount_in_wei_def)
  then have 3: "wrap_eth_to_weth ?w7 example_config amount_in_wei ?t =
      Some (Inl (Exception ''unexpected payload''), ?t)"
    by (simp add: run_defs example_defs ledger_client_def example_wrap_payload_def)
  from payloads [where c = ?u7 and cfg = example_config and amount = amount_in_wei and s = ?s
      and ?s1.0 = ?s and nonce = 7 and ?w2.0 = 0 and gas_estimate = 50000 and ?w3.0 = 0]
    g1(4) n(4) e(4) r
  have "unwrap_weth_to_eth ?u7 example_config amount_in_wei ?s =
      sign_and_send ?u7 example_config UnwrapSent ErrorSendingUnwrap
        (example_unwrap_payload 7) ?s"
    by (simp add: w cfg fees withdraw_selector example_unwrap_payload_def amount_bytes hx)
  then have 4: "unwrap_weth_to_eth ?u7 example_config amount_in_wei ?s =
      Some (Inr True, ?s\<lparr>out := [UnwrapSent ''0xabc'', Confirmed ''0xabc'']\<rparr>)"
    by (simp add: run_defs example_defs ledger_client_def)
  from 1 2 3 4 show ?thesis by simp
qed

section \<open>Progress store\<close>

text \<open>What a save wrote is what the next start loads.\<close>

lemma load_after_save:
  "load_transaction_status (save_transaction_status w u t s) = Inr (JInt w, JInt u, JInt t)"
  by (simp add: load_transaction_status_def save_transaction_status_def status_doc_def)

text \<open>
  Claim C9, as amended. When the status file is absent, or its content is text that
  \<^verbatim>\<open>json.load\<close> rejects with \<^verbatim>\<open>JSONDecodeError\<close>, loading yields the zero state and raises
  nothing. (Any other malformed file is not covered: content that is not text, and content
  that parses as JSON but is not a record with the three fields.)
\<close>

theorem load_zero_state:
  "fs s = None \<or> (\<exists>text. fs s = Some (NotJson text)) \<Longrightarrow>
   load_transaction_status s = Inr (JInt 0, JInt 0, JInt 0)"
  by (auto simp: load_transaction_status_def)

theorem load_zero_state_witness:
  "load_transaction_status (example_state 3 2 5 None) = Inr (JInt 0, JInt 0, JInt 0) \<and>
   load_transaction_status (example_state 3 2 5 (Some (NotJson ''wrap_counter = 4''))) =
     Inr (JInt 0, JInt 0, JInt 0)"
  using load_zero_state [of "example_state 3 2 5 None"]
    load_zero_state [of "example_state 3 2 5 (Some (NotJson ''wrap_counter = 4''))"]
  by (simp add: example_state_def)

text \<open>
  Two malformed status files that abort the loading: one that parses as JSON and lacks a
  field raises \<^verbatim>\<open>KeyError\<close>, one whose bytes are not text raises \<^verbatim>\<open>UnicodeDecodeError\<close>;
  the \<^verbatim>\<open>except\<close> clause names neither.
\<close>

theorem load_malformed_counterexample:
  "malformed (Json (JObj [(''wrap_counter'', JInt 4)])) \<and>
   load_transaction_status (example_state 0 0 0 (Some (Json (JObj [(''wrap_counter'', JInt 4)])))) =
     Inl (KeyError ''unwrap_counter'') \<and>
   malformed (Unreadable (UnicodeDecodeError ''invalid start byte'')) \<and>
   load_transaction_status
       (example_state 0 0 0 (Some (Unreadable (UnicodeDecodeError ''invalid start byte'')))) =
     Inl (UnicodeDecodeError ''invalid start byte'')"
  by (simp add: malformed_def status_record_def int_field_def load_transaction_status_def
      example_state_def)

section \<open>Leaving the loop\<close>

lemma quota_points:
  assumes "total_tx s0 < 90" and "run_point c cfg s0 p s"
  shows "(p = LoopHead \<longrightarrow> total_tx s < 90) \<and> total_tx s \<le> 90 \<and>
         (p = Exited \<longrightarrow> total_tx s = 90 \<and> fs s = None)"
  using assms(2)
proof (induction rule: run_point.induct)
  case start
  then show ?case using assms(1) by simp
next
  case (wrap_done s u s1)
  from wrap_branch_done [OF wrap_done.hyps(3)] wrap_done.IH show ?case
    by (auto simp: same_store_def)
next
  case (wrap_raised s e s1)
  from wrap_branch_raised [OF wrap_raised.hyps(3)] wrap_raised.IH show ?case
    by (auto simp: same_store_def)
next
  case (unwrap_done s u s1)
  from unwrap_branch_done [OF unwrap_done.hyps(2)] unwrap_done.IH show ?case
    by (auto simp: same_store_def)
next
  case (unwrap_raised s e s1)
  from unwrap_branch_raised [OF unwrap_raised.hyps(2)] unwrap_raised.IH show ?case
    by (auto simp: same_store_def)
qed (auto simp: sleep_def)

lemma started_at_quota:
  assumes "total_tx s0 \<ge> 90" and "run_point c cfg s0 p s"
  shows "s = s0 \<and> (p = LoopHead \<or> p = Exited)"
  using assms(2)
proof (induction rule: run_point.induct)
  case start
  then show ?case by simp
next
  case (leave s)
  then show ?case by simp
qed (use assms(1) in auto)

text \<open>
  Claim C10. When the total is already 90 or more at the start, the loop returns at once
  with the state as it was, whatever the client: no call is made, no counter changes and the
  status file stays. The only points of such a run are the loop's head and the exit, both in
  the starting state.
\<close>

theorem no_work_at_quota:
  "total_tx s \<ge> 90 \<Longrightarrow>
   main_loop c cfg s = Some (Inr (), s) \<and>
   (\<forall>p s'. run_point c cfg s p s' \<longrightarrow> s' = s \<and> (p = LoopHead \<or> p = Exited))"
  using started_at_quota [of s c cfg] by (subst main_loop.simps) auto

theorem no_work_at_quota_witness:
  "main_loop keyless_client example_config
     (example_state 60 60 120 (Some (Json (status_doc 60 60 120)))) =
   Some (Inr (), example_state 60 60 120 (Some (Json (status_doc 60 60 120)))) \<and>
   fs (example_state 60 60 120 (Some (Json (status_doc 60 60 120)))) =
     Some (Json (status_doc 60 60 120))"
  using no_work_at_quota [of "example_state 60 60 120 (Some (Json (status_doc 60 60 120)))"
      keyless_client example_config]
  by (simp add: example_state_def)

text \<open>
  A run that starts with the total at 90 and the status file present ends at once, and the
  file is still there at the exit.
\<close>

theorem loop_exit_counterexample:
  "main_loop example_client example_config
     (example_state 45 45 90 (Some (Json (status_doc 45 45 90)))) =
   Some (Inr (), example_state 45 45 90 (Some (Json (status_doc 45 45 90)))) \<and>
   fs (example_state 45 45 90 (Some (Json (status_doc 45 45 90)))) \<noteq> None"
  by (simp add: main_loop.simps example_state_def)

text \<open>
  Claim C3, as amended. A run of the loop that starts with the total below 90 and ends
  without an exception ends with the total exactly 90 and without the status file. After
  the two branches of an iteration, the loop is left (and the file removed) if the total
  has reached 90, and goes on with the next iteration after a sleep of 10 if it has not.
\<close>

theorem loop_exit:
  "(total_tx s0 < 90 \<and> main_loop c cfg s0 = Some (Inr u, s') \<longrightarrow>
      total_tx s' = 90 \<and> fs s' = None) \<and>
   (total_tx s < 90 \<and> wrap_branch c cfg s = Some (Inr u1, s1) \<and>
    unwrap_branch c cfg s1 = Some (Inr u2, s2) \<longrightarrow>
      (if total_tx s2 \<ge> 90 then main_loop c cfg s = Some (Inr (), remove_status_file s2)
       else main_loop c cfg s = main_loop c cfg (sleep c 10 s2)))"
proof -
  have "total_tx s' = 90 \<and> fs s' = None"
    if a: "total_tx s0 < 90 \<and> main_loop c cfg s0 = Some (Inr u, s')"
  proof -
    from a have "run_point c cfg s0 Exited s'"
      using main_loop_run_point [of c cfg s0 "Inr u" s'] by simp
    with a show ?thesis
      using quota_points [of s0 c cfg Exited s'] by simp
  qed
  moreover have "if total_tx s2 \<ge> 90
       then main_loop c cfg s = Some (Inr (), remove_status_file s2)
       else main_loop c cfg s = main_loop c cfg (sleep c 10 s2)"
    if b: "total_tx s < 90 \<and> wrap_branch c cfg s = Some (Inr u1, s1) \<and>
      unwrap_branch c cfg s1 = Some (Inr u2, s2)"
  proof -
    from b have "main_loop c cfg s =
        (if total_tx s2 \<ge> 90 then Some (Inr (), remove_status_file s2)
         else main_loop c cfg (sleep c 10 s2))"
      by (subst main_loop.simps) simp
    then show ?thesis by (simp split: if_splits)
  qed
  ultimately show ?thesis by blast
qed

theorem loop_exit_witness:
  "total_tx (example_state 45 44 89 (Some (Json (status_doc 45 44 89)))) < 90 \<and>
   main_loop example_client example_config
     (example_state 45 44 89 (Some (Json (status_doc 45 44 89)))) =
   Some (Inr (),
     \<lparr>wrap_counter = 45, unwrap_counter = 45, total_tx = 90, fs = None,
      out = [UnwrapSent ''0xabc'', Confirmed ''0xabc'', TotalUnwrapping 90 45,
             StatusFileDeleted], world = 0\<rparr>)"
proof -
  let ?s0 = "example_state 45 44 89 (Some (Json (status_doc 45 44 89)))"
  let ?s2 = "\<lparr>wrap_counter = 45, unwrap_counter = 45, total_tx = 90,
      fs = Some (Json (status_doc 45 45 90)),
      out = [UnwrapSent ''0xabc'', Confirmed ''0xabc'', TotalUnwrapping 90 45],
      world = 0::int\<rparr>"
  have t: "total_tx ?s0 < 90" by (simp add: example_state_def)
  have w: "wrap_branch example_client example_config ?s0 = Some (Inr (), ?s0)"
    by (simp add: wrap_branch_def example_state_def)
  have u: "unwrap_branch example_client example_config ?s0 = Some (Inr (), ?s2)"
    by (simp add: run_defs example_defs)
  from loop_exit [where s = ?s0 and c = example_client and cfg = example_config and
      ?s1.0 = ?s0 and ?s2.0 = ?s2 and ?u1.0 = "()" and ?u2.0 = "()"] t w u
  show ?thesis by (simp add: remove_status_file_def print_def)
qed

section \<open>Failed attempts\<close>

lemma sign_and_send_broadcast_error:
  "sign_transaction c tx (private_key cfg) = Inr raw \<Longrightarrow>
   send_raw_transaction c raw (world s) = (Inl e, w1) \<Longrightarrow>
   sign_and_send c cfg sent error tx s = Some (Inr False, print (error e) (s\<lparr>world := w1\<rparr>))"
  by (simp add: sign_and_send_def)

lemma sign_and_send_waited:
  "sign_transaction c tx (private_key cfg) = Inr raw \<Longrightarrow>
   send_raw_transaction c raw (world s) = (Inr h, w1) \<Longrightarrow>
   wait_for_confirmation c h 300 (print (sent h) (s\<lparr>world := w1\<rparr>)) = Some (b, s1) \<Longrightarrow>
   sign_and_send c cfg sent error tx s = Some (Inr b, s1)"
  by (simp add: sign_and_send_def)

lemma gate_estimate_error:
  "estimate_gas c (Deposit amount) (deposit_params cfg amount) (world s) = (Inl e, w1) \<Longrightarrow>
   has_sufficient_balance c cfg amount True s =
     (False, print (ErrorCheckingBalance e) (s\<lparr>world := w1\<rparr>))"
  "estimate_gas c (Withdraw amount) (withdraw_params cfg) (world s) = (Inl e, w1) \<Longrightarrow>
   has_sufficient_balance c cfg amount False s =
     (False, print (ErrorCheckingBalance e) (s\<lparr>world := w1\<rparr>))"
  by (simp_all add: has_sufficient_balance_def)

lemma attempt_gate_closed:
  "has_sufficient_balance c cfg amount True s = (False, s1) \<Longrightarrow>
   wrap_eth_to_weth c cfg amount s = Some (Inr False, print InsufficientEth s1)"
  "has_sufficient_balance c cfg amount False s = (False, s1) \<Longrightarrow>
   unwrap_weth_to_eth c cfg amount s = Some (Inr False, print InsufficientWeth s1)"
  by (simp_all add: wrap_eth_to_weth_def unwrap_weth_to_eth_def)

text \<open>
  The three places of an attempt outside every \<^verbatim>\<open>try\<close>: the nonce fetch, the second gas
  estimate and the signing. An exception there leaves the attempt.
\<close>

lemma wrap_attempt_raises:
  assumes "has_sufficient_balance c cfg amount True s = (True, s1)"
  shows "get_next_nonce c cfg (world s1) = (Inl e, w2) \<Longrightarrow>
      wrap_eth_to_weth c cfg amount s = Some (Inl e, s1\<lparr>world := w2\<rparr>)"
    and "get_next_nonce c cfg (world s1) = (Inr nonce, w2) \<Longrightarrow>
      estimate_gas c (Deposit amount) (deposit_params cfg amount) w2 = (Inl e, w3) \<Longrightarrow>
      wrap_eth_to_weth c cfg amount s = Some (Inl e, s1\<lparr>world := w3\<rparr>)"
    and "get_next_nonce c cfg (world s1) = (Inr nonce, w2) \<Longrightarrow>
      estimate_gas c (Deposit amount) (deposit_params cfg amount) w2 = (Inr gas_estimate, w3) \<Longrightarrow>
      sign_transaction c (wrap_transaction cfg nonce gas_estimate amount) (private_key cfg) = Inl e \<Longrightarrow>
      wrap_eth_to_weth c cfg amount s = Some (Inl e, s1\<lparr>world := w3\<rparr>)"
  using assms by (simp_all add: wrap_eth_to_weth_def sign_and_send_def)

lemma branch_after_failure:
  "wrap_counter s < 45 \<Longrightarrow> total_tx s < 90 \<Longrightarrow>
   wrap_eth_to_weth c cfg amount_in_wei s = Some (Inr False, s1) \<Longrightarrow>
   wrap_branch c cfg s = Some (Inr (), s1)"
  "unwrap_counter s < 45 \<Longrightarrow> total_tx s < 90 \<Longrightarrow>
   unwrap_weth_to_eth c cfg amount_in_wei s = Some (Inr False, s1) \<Longrightarrow>
   unwrap_branch c cfg s = Some (Inr (), s1)"
  by (simp_all add: wrap_branch_def unwrap_branch_def)

lemma loop_goes_on:
  assumes "total_tx s < 90" and "wrap_branch c cfg s = Some (Inr u1, s1)"
    and "unwrap_branch c cfg s1 = Some (Inr u2, s2)" and "total_tx s2 < 90"
  shows "main_loop c cfg s = main_loop c cfg (sleep c 10 s2)"
proof -
  from assms have "main_loop c cfg s =
      (if total_tx s2 \<ge> 90 then Some (Inr (), remove_status_file s2)
       else main_loop c cfg (sleep c 10 s2))"
    by (subst main_loop.simps) simp
  with assms(4) show ?thesis by simp
qed

lemma failed_wrap_retry:
  assumes "wrap_counter s < 45 \<and> total_tx s < 90 \<and>
    wrap_eth_to_weth c cfg amount_in_wei s = Some (Inr False, s1)"
  shows "wrap_branch c cfg s = Some (Inr (), s1) \<and> same_store s s1 \<and>
      wrap_counter s1 < 45 \<and> total_tx s1 < 90 \<and>
      (consistent s \<and> unwrap_branch c cfg s1 = Some (Inr u, s2) \<longrightarrow>
         main_loop c cfg s = main_loop c cfg (sleep c 10 s2) \<and>
         wrap_counter (sleep c 10 s2) < 45 \<and> total_tx (sleep c 10 s2) < 90)"
proof -
  from assms have b: "wrap_branch c cfg s = Some (Inr (), s1)"
    by (simp add: branch_after_failure)
  from assms have st: "same_store s s1" by (auto dest: wrap_eth_to_weth_store)
  have "main_loop c cfg s = main_loop c cfg (sleep c 10 s2) \<and>
      wrap_counter (sleep c 10 s2) < 45 \<and> total_tx (sleep c 10 s2) < 90"
    if c: "consistent s" and ub: "unwrap_branch c cfg s1 = Some (Inr u, s2)"
  proof -
    from unwrap_branch_done [OF ub] c assms st
    have t: "total_tx s2 < 90 \<and> wrap_counter s2 < 45"
      by (auto simp: same_store_def consistent_def)
    with assms b ub have "main_loop c cfg s = main_loop c cfg (sleep c 10 s2)"
      by (auto intro: loop_goes_on)
    with t show ?thesis by (simp add: sleep_def)
  qed
  with assms b st show ?thesis by (auto simp: same_store_def)
qed

lemma failed_unwrap_retry:
  assumes "unwrap_counter s < 45 \<and> total_tx s < 90 \<and>
    unwrap_weth_to_eth c cfg amount_in_wei s = Some (Inr False, s1)"
  shows "unwrap_branch c cfg s = Some (Inr (), s1) \<and> same_store s s1 \<and>
      unwrap_counter s1 < 45 \<and> total_tx s1 < 90 \<and>
      (total_tx s0 < 90 \<and> wrap_branch c cfg s0 = Some (Inr u0, s) \<longrightarrow>
         main_loop c cfg s0 = main_loop c cfg (sleep c 10 s1)) \<and>
      (consistent s \<and> wrap_branch c cfg (sleep c 10 s1) = Some (Inr u, s2) \<longrightarrow>
         unwrap_counter s2 < 45 \<and> total_tx s2 < 90)"
proof -
  from assms have b: "unwrap_branch c cfg s = Some (Inr (), s1)"
    by (simp add: branch_after_failure)
  from assms have st: "same_store s s1" by (auto dest: unwrap_weth_to_eth_store)
  with assms have t: "unwrap_counter s1 < 45 \<and> total_tx s1 < 90"
    by (simp add: same_store_def)
  have go: "main_loop c cfg s0 = main_loop c cfg (sleep c 10 s1)"
    if "total_tx s0 < 90" "wrap_branch c cfg s0 = Some (Inr u0, s)"
    using that b t by (auto intro: loop_goes_on)
  have "unwrap_counter s2 < 45 \<and> total_tx s2 < 90"
    if "consistent s" "wrap_branch c cfg (sleep c 10 s1) = Some (Inr u, s2)"
    using wrap_branch_done [OF that(2)] that(1) assms st
    by (auto simp: same_store_def consistent_def sleep_def)
  with b st t go show ?thesis by blast
qed

text \<open>
  A signing that raises is a submit error too, and after it the operation is not tried
  again: the exception leaves the attempt, its branch and the loop.
\<close>

theorem failed_attempt_counterexample:
  "unwrap_weth_to_eth keyless_client example_config amount_in_wei (example_state 45 10 55 None) =
     Some (Inl (Exception ''invalid private key''), example_state 45 10 55 None) \<and>
   unwrap_branch keyless_client example_config (example_state 45 10 55 None) =
     Some (Inl (Exception ''invalid private key''), example_state 45 10 55 None) \<and>
   main_loop keyless_client example_config (example_state 45 10 55 None) =
     Some (Inl (Exception ''invalid private key''), example_state 45 10 55 None)"
  by (simp add: main_loop.simps run_defs example_defs)

text \<open>
  Claim C4, as amended. When an attempt returns \<open>False\<close>, its branch of the loop leaves the
  three counters and the status file as they were (nothing is saved), and the guard of the
  same operation still holds. When the total is the sum of the counters and the other branch
  returns, the loop goes on with the next iteration, where the guard of the operation holds
  again: for a failed wrap at the head of the next iteration, for a failed unwrap after the
  wrap branch of the next iteration. An attempt returns \<open>False\<close> when the balance gate is
  closed, when the broadcast raises, and when the wait for the confirmation returns
  \<open>False\<close>, which it does with the message \<open>Failed\<close> (reverted) or \<open>Timeout\<close> (timed
  out).
\<close>

theorem failed_attempt:
  "(wrap_counter s < 45 \<and> total_tx s < 90 \<and>
    wrap_eth_to_weth c cfg amount_in_wei s = Some (Inr False, s1) \<longrightarrow>
      wrap_branch c cfg s = Some (Inr (), s1) \<and> same_store s s1 \<and>
      wrap_counter s1 < 45 \<and> total_tx s1 < 90 \<and>
      (consistent s \<and> unwrap_branch c cfg s1 = Some (Inr u, s2) \<longrightarrow>
         main_loop c cfg s = main_loop c cfg (sleep c 10 s2) \<and>
         wrap_counter (sleep c 10 s2) < 45 \<and> total_tx (sleep c 10 s2) < 90)) \<and>
   (unwrap_counter s < 45 \<and> total_tx s < 90 \<and>
    unwrap_weth_to_eth c cfg amount_in_wei s = Some (Inr False, s1) \<longrightarrow>
      unwrap_branch c cfg s = Some (Inr (), s1) \<and> same_store s s1 \<and>
      unwrap_counter s1 < 45 \<and> total_tx s1 < 90 \<and>
      (total_tx s0 < 90 \<and> wrap_branch c cfg s0 = Some (Inr u0, s) \<longrightarrow>
         main_loop c cfg s0 = main_loop c cfg (sleep c 10 s1)) \<and>
      (consistent s \<and> wrap_branch c cfg (sleep c 10 s1) = Some (Inr u, s2) \<longrightarrow>
         unwrap_counter s2 < 45 \<and> total_tx s2 < 90)) \<and>
   (has_sufficient_balance c cfg amount True s = (False, s1) \<longrightarrow>
      wrap_eth_to_weth c cfg amount s = Some (Inr False, print InsufficientEth s1)) \<and>
   (has_sufficient_balance c cfg amount False s = (False, s1) \<longrightarrow>
      unwrap_weth_to_eth c cfg amount s = Some (Inr False, print InsufficientWeth s1)) \<and>
   (sign_transaction c tx (private_key cfg) = Inr raw \<and>
    send_raw_transaction c raw (world s) = (Inl e, w1) \<longrightarrow>
      sign_and_send c cfg sent error tx s =
        Some (Inr False, print (error e) (s\<lparr>world := w1\<rparr>))) \<and>
   (sign_transaction c tx (private_key cfg) = Inr raw \<and>
    send_raw_transaction c raw (world s) = (Inr h, w1) \<and>
    wait_for_confirmation c h 300 (print (sent h) (s\<lparr>world := w1\<rparr>)) = Some (False, s1) \<longrightarrow>
      sign_and_send c cfg sent error tx s = Some (Inr False, s1) \<and>
      (last (out s1) = Failed h \<or> last (out s1) = Timeout h))"
proof -
  have 3: "sign_and_send c cfg sent error tx s = Some (Inr False, s1) \<and>
      (last (out s1) = Failed h \<or> last (out s1) = Timeout h)"
    if a: "sign_transaction c tx (private_key cfg) = Inr raw \<and>
      send_raw_transaction c raw (world s) = (Inr h, w1) \<and>
      wait_for_confirmation c h 300 (print (sent h) (s\<lparr>world := w1\<rparr>)) = Some (False, s1)"
  proof -
    from a have "wait_loop c h (time_time c w1) 300 (print (sent h) (s\<lparr>world := w1\<rparr>)) =
        Some (False, s1)"
      by (simp add: wait_for_confirmation_def print_def)
    from wait_loop_report [OF this] have "last (out s1) = Failed h \<or> last (out s1) = Timeout h"
      by auto
    with a show ?thesis by (simp add: sign_and_send_waited)
  qed
  from failed_wrap_retry [of s c cfg s1 u s2] failed_unwrap_retry [of s c cfg s1 s0 u0 u s2] 3
  show ?thesis
    by (simp add: attempt_gate_closed sign_and_send_broadcast_error)
qed

theorem failed_attempt_witness:
  "wrap_eth_to_weth reverting_client example_config amount_in_wei (example_state 10 10 20 None) =
     Some (Inr False, (example_state 10 10 20 None)
       \<lparr>out := [WrapSent ''0xabc'', Failed ''0xabc'']\<rparr>) \<and>
   wrap_branch reverting_client example_config (example_state 10 10 20 None) =
     Some (Inr (), (example_state 10 10 20 None)
       \<lparr>out := [WrapSent ''0xabc'', Failed ''0xabc'']\<rparr>) \<and>
   unwrap_weth_to_eth silent_client example_config amount_in_wei (example_state 10 10 20 None) =
     Some (Inr False, (example_state 10 10 20 None)
       \<lparr>out := [UnwrapSent ''0xabc'', Timeout ''0xabc''], world := 300\<rparr>) \<and>
   unwrap_branch silent_client example_config (example_state 10 10 20 None) =
     Some (Inr (), (example_state 10 10 20 None)
       \<lparr>out := [UnwrapSent ''0xabc'', Timeout ''0xabc''], world := 300\<rparr>) \<and>
   wrap_eth_to_weth unpriced_client example_config amount_in_wei (example_state 10 10 20 None) =
     Some (Inr False, (example_state 10 10 20 None)
       \<lparr>out := [ErrorCheckingBalance (Exception ''execution reverted''), InsufficientEth]\<rparr>) \<and>
   sign_and_send offline_client example_config WrapSent ErrorSendingWrap
       (wrap_transaction example_config 7 50000 amount_in_wei) (example_state 10 10 20 None) =
     Some (Inr False, (example_state 10 10 20 None)
       \<lparr>out := [ErrorSendingWrap (Exception ''connection refused'')]\<rparr>) \<and>
   consistent (example_state 10 10 20 None) \<and>
   unwrap_branch reverting_client example_config
       ((example_state 10 10 20 None)\<lparr>out := [WrapSent ''0xabc'', Failed ''0xabc'']\<rparr>) =
     Some (Inr (), (example_state 10 10 20 None)
       \<lparr>out := [WrapSent ''0xabc'', Failed ''0xabc'', UnwrapSent ''0xabc'', Failed ''0xabc'']\<rparr>) \<and>
   main_loop reverting_client example_config (example_state 10 10 20 None) =
     main_loop reverting_client example_config ((example_state 10 10 20 None)
       \<lparr>out := [WrapSent ''0xabc'', Failed ''0xabc'', UnwrapSent ''0xabc'', Failed ''0xabc''],
        world := 10\<rparr>) \<and>
   wrap_counter (sleep reverting_client 10 ((example_state 10 10 20 None)
       \<lparr>out := [WrapSent ''0xabc'', Failed ''0xabc'', UnwrapSent ''0xabc'', Failed ''0xabc'']\<rparr>))
     < 45 \<and>
   total_tx (sleep reverting_client 10 ((example_state 10 10 20 None)
       \<lparr>out := [WrapSent ''0xabc'', Failed ''0xabc'', UnwrapSent ''0xabc'', Failed ''0xabc'']\<rparr>))
     < 90"
proof -
  let ?s = "example_state 10 10 20 None"
  let ?r = "?s\<lparr>out := [WrapSent ''0xabc'', Failed ''0xabc'']\<rparr>"
  let ?t = "?s\<lparr>out := [UnwrapSent ''0xabc'', Timeout ''0xabc''], world := 300\<rparr>"
  let ?g = "?s\<lparr>out := [ErrorCheckingBalance (Exception ''execution reverted'')]\<rparr>"
  let ?r2 = "?s\<lparr>out := [WrapSent ''0xabc'', Failed ''0xabc'', UnwrapSent ''0xabc'',
      Failed ''0xabc'']\<rparr>"
  have c0: "consistent ?s" by (simp add: consistent_def example_state_def)
  have ub: "unwrap_branch reverting_client example_config ?r = Some (Inr (), ?r2)"
    by (simp add: run_defs example_defs)
  have g: "wrap_counter ?s < 45 \<and> unwrap_counter ?s < 45 \<and> total_tx ?s < 90"
    by (simp add: example_state_def)
  have r: "wrap_eth_to_weth reverting_client example_config amount_in_wei ?s =
      Some (Inr False, ?r)"
    by (simp add: run_defs example_defs)
  have t: "unwrap_weth_to_eth silent_client example_config amount_in_wei ?s =
      Some (Inr False, ?t)"
    by (simp add: run_defs example_defs)
  have c: "has_sufficient_balance unpriced_client example_config amount_in_wei True ?s =
      (False, ?g)"
    by (simp add: run_defs example_defs)
  have o: "sign_transaction offline_client (wrap_transaction example_config 7 50000 amount_in_wei)
        (private_key example_config) = Inr ''signed'' \<and>
      send_raw_transaction offline_client ''signed'' (world ?s) =
        (Inl (Exception ''connection refused''), 0)"
    by (simp add: example_defs)
  from failed_attempt [where s = ?s and c = reverting_client and cfg = example_config and
      ?s1.0 = ?r and ?s2.0 = ?r2 and u = "()" and ?s0.0 = ?s and ?u0.0 = "()"] g r
  have 1: "wrap_branch reverting_client example_config ?s = Some (Inr (), ?r)" by simp
  from failed_attempt [where s = ?s and c = silent_client and cfg = example_config and
      ?s1.0 = ?t and ?s2.0 = ?s and u = "()" and ?s0.0 = ?s and ?u0.0 = "()"] g t
  have 2: "unwrap_branch silent_client example_config ?s = Some (Inr (), ?t)" by simp
  from failed_attempt [where s = ?s and c = unpriced_client and cfg = example_config and
      ?s1.0 = ?g and amount = amount_in_wei and ?s2.0 = ?s and u = "()" and ?s0.0 = ?s and
      ?u0.0 = "()"] c
  have 3: "wrap_eth_to_weth unpriced_client example_config amount_in_wei ?s =
      Some (Inr False, print InsufficientEth ?g)" by simp
  from failed_attempt [where s = ?s and c = offline_client and cfg = example_config and
      tx = "wrap_transaction example_config 7 50000 amount_in_wei" and raw = "''signed''" and
      e = "Exception ''connection refused''" and ?w1.0 = 0 and sent = WrapSent and
      error = ErrorSendingWrap and ?s1.0 = ?s and ?s2.0 = ?s and u = "()" and ?s0.0 = ?s and
      ?u0.0 = "()"] o
  have 4: "sign_and_send offline_client example_config WrapSent ErrorSendingWrap
       (wrap_transaction example_config 7 50000 amount_in_wei) ?s =
     Some (Inr False, print (ErrorSendingWrap (Exception ''connection refused''))
       (?s\<lparr>world := 0\<rparr>))" by simp
  from failed_attempt [where s = ?s and c = reverting_client and cfg = example_config and
      ?s1.0 = ?r and ?s2.0 = ?r2 and u = "()" and ?s0.0 = ?s and ?u0.0 = "()"] g r c0 ub
  have 5: "main_loop reverting_client example_config ?s =
        main_loop reverting_client example_config (sleep reverting_client 10 ?r2) \<and>
      wrap_counter (sleep reverting_client 10 ?r2) < 45 \<and>
      total_tx (sleep reverting_client 10 ?r2) < 90" by blast
  have sl: "sleep reverting_client 10 ?r2 = ?s\<lparr>out := [WrapSent ''0xabc'', Failed ''0xabc'',
      UnwrapSent ''0xabc'', Failed ''0xabc''], world := 10\<rparr>"
    by (simp add: sleep_def example_defs)
  from 5 have 6: "main_loop reverting_client example_config ?s =
      main_loop reverting_client example_config (?s\<lparr>out := [WrapSent ''0xabc'',
        Failed ''0xabc'', UnwrapSent ''0xabc'', Failed ''0xabc''], world := 10\<rparr>)"
    by (simp only: sl)
  have p: "print InsufficientEth ?g = ?s\<lparr>out := [ErrorCheckingBalance
      (Exception ''execution reverted''), InsufficientEth]\<rparr>"
    "print (ErrorSendingWrap (Exception ''connection refused'')) (?s\<lparr>world := 0\<rparr>) =
      ?s\<lparr>out := [ErrorSendingWrap (Exception ''connection refused'')]\<rparr>"
    by (simp_all add: print_def example_state_def)
  from r 1 t 2 3 4 c0 ub 5 6 p show ?thesis by (simp only: simp_thms)
qed

section \<open>Errors that an attempt absorbs\<close>

text \<open>
  A signing that raises is not absorbed: the exception leaves the attempt, and with it the
  main loop.
\<close>

theorem soft_failures_counterexample:
  "wrap_eth_to_weth keyless_client example_config amount_in_wei (example_state 0 0 0 None) =
     Some (Inl (Exception ''invalid private key''), example_state 0 0 0 None) \<and>
   main_loop keyless_client example_config (example_state 0 0 0 None) =
     Some (Inl (Exception ''invalid private key''), example_state 0 0 0 None)"
  by (simp add: main_loop.simps run_defs example_defs)

text \<open>
  Claim C6, as amended. A gas estimate that raises inside the balance gate, and a broadcast
  that raises, make the attempt return \<open>False\<close> with the error printed; the branch of the
  loop then returns normally with the counters and the status file untouched and the guard
  of the operation still true. When the total is the sum of the counters and the other
  branch returns, the loop goes on with the next iteration, where the guard of the
  operation holds again, so that the operation is tried again.
\<close>

theorem soft_failures:
  "(estimate_gas c (Deposit amount) (deposit_params cfg amount) (world s) = (Inl e, w1) \<longrightarrow>
      wrap_eth_to_weth c cfg amount s =
        Some (Inr False, print InsufficientEth
          (print (ErrorCheckingBalance e) (s\<lparr>world := w1\<rparr>)))) \<and>
   (estimate_gas c (Withdraw amount) (withdraw_params cfg) (world s) = (Inl e, w1) \<longrightarrow>
      unwrap_weth_to_eth c cfg amount s =
        Some (Inr False, print InsufficientWeth
          (print (ErrorCheckingBalance e) (s\<lparr>world := w1\<rparr>)))) \<and>
   (has_sufficient_balance c cfg amount True s = (True, s1) \<and>
    get_transaction_count c (my_address cfg) (world s1) = (Inr nonce, w2) \<and>
    estimate_gas c (Deposit amount) (deposit_params cfg amount) w2 = (Inr gas_estimate, w3) \<and>
    sign_transaction c (wrap_transaction cfg nonce gas_estimate amount) (private_key cfg) =
      Inr raw \<and>
    send_raw_transaction c raw w3 = (Inl e, w4) \<longrightarrow>
      wrap_eth_to_weth c cfg amount s =
        Some (Inr False, print (ErrorSendingWrap e) (s1\<lparr>world := w4\<rparr>))) \<and>
   (has_sufficient_balance c cfg amount False s = (True, s1) \<and>
    get_transaction_count c (my_address cfg) (world s1) = (Inr nonce, w2) \<and>
    estimate_gas c (Withdraw amount) (withdraw_params cfg) w2 = (Inr gas_estimate, w3) \<and>
    unwrap_transaction cfg nonce gas_estimate amount = Inr tx \<and>
    sign_transaction c tx (private_key cfg) = Inr raw \<and>
    send_raw_transaction c raw w3 = (Inl e, w4) \<longrightarrow>
      unwrap_weth_to_eth c cfg amount s =
        Some (Inr False, print (ErrorSendingUnwrap e) (s1\<lparr>world := w4\<rparr>))) \<and>
   (wrap_counter s < 45 \<and> total_tx s < 90 \<and>
    wrap_eth_to_weth c cfg amount_in_wei s = Some (Inr False, s1) \<longrightarrow>
      wrap_branch c cfg s = Some (Inr (), s1) \<and> same_store s s1 \<and>
      wrap_counter s1 < 45 \<and> total_tx s1 < 90 \<and>
      (consistent s \<and> unwrap_branch c cfg s1 = Some (Inr u, s2) \<longrightarrow>
         main_loop c cfg s = main_loop c cfg (sleep c 10 s2) \<and>
         wrap_counter (sleep c 10 s2) < 45 \<and> total_tx (sleep c 10 s2) < 90)) \<and>
   (unwrap_counter s < 45 \<and> total_tx s < 90 \<and>
    unwrap_weth_to_eth c cfg amount_in_wei s = Some (Inr False, s1) \<longrightarrow>
      unwrap_branch c cfg s = Some (Inr (), s1) \<and> same_store s s1 \<and>
      unwrap_counter s1 < 45 \<and> total_tx s1 < 90 \<and>
      (total_tx s0 < 90 \<and> wrap_branch c cfg s0 = Some (Inr u0, s) \<longrightarrow>
         main_loop c cfg s0 = main_loop c cfg (sleep c 10 s1)) \<and>
      (consistent s \<and> wrap_branch c cfg (sleep c 10 s1) = Some (Inr u, s2) \<longrightarrow>
         unwrap_counter s2 < 45 \<and> total_tx s2 < 90))"
proof -
  have gate: "estimate_gas c (Deposit amount) (deposit_params cfg amount) (world s) = (Inl e, w1) \<longrightarrow>
      wrap_eth_to_weth c cfg amount s =
        Some (Inr False, print InsufficientEth
          (print (ErrorCheckingBalance e) (s\<lparr>world := w1\<rparr>)))"
    "estimate_gas c (Withdraw amount) (withdraw_params cfg) (world s) = (Inl e, w1) \<longrightarrow>
      unwrap_weth_to_eth c cfg amount s =
        Some (Inr False, print InsufficientWeth
          (print (ErrorCheckingBalance e) (s\<lparr>world := w1\<rparr>)))"
    by (simp_all add: gate_estimate_error attempt_gate_closed)
  have send: "has_sufficient_balance c cfg amount True s = (True, s1) \<and>
    get_transaction_count c (my_address cfg) (world s1) = (Inr nonce, w2) \<and>
    estimate_gas c (Deposit amount) (deposit_params cfg amount) w2 = (Inr gas_estimate, w3) \<and>
    sign_transaction c (wrap_transaction cfg nonce gas_estimate amount) (private_key cfg) =
      Inr raw \<and>
    send_raw_transaction c raw w3 = (Inl e, w4) \<longrightarrow>
      wrap_eth_to_weth c cfg amount s =
        Some (Inr False, print (ErrorSendingWrap e) (s1\<lparr>world := w4\<rparr>))"
    "has_sufficient_balance c cfg amount False s = (True, s1) \<and>
    get_transaction_count c (my_address cfg) (world s1) = (Inr nonce, w2) \<and>
    estimate_gas c (Withdraw amount) (withdraw_params cfg) w2 = (Inr gas_estimate, w3) \<and>
    unwrap_transaction cfg nonce gas_estimate amount = Inr tx \<and>
    sign_transaction c tx (private_key cfg) = Inr raw \<and>
    send_raw_transaction c raw w3 = (Inl e, w4) \<longrightarrow>
      unwrap_weth_to_eth c cfg amount s =
        Some (Inr False, print (ErrorSendingUnwrap e) (s1\<lparr>world := w4\<rparr>))"
    by (simp_all add: wrap_eth_to_weth_def unwrap_weth_to_eth_def sign_and_send_def
        get_next_nonce_def)
  from gate send failed_wrap_retry [of s c cfg s1 u s2]
    failed_unwrap_retry [of s c cfg s1 s0 u0 u s2]
  show ?thesis by blast
qed

theorem soft_failures_witness:
  "wrap_eth_to_weth unpriced_client example_config amount_in_wei (example_state 3 2 5 None) =
     Some (Inr False, (example_state 3 2 5 None)
       \<lparr>out := [ErrorCheckingBalance (Exception ''execution reverted''), InsufficientEth]\<rparr>) \<and>
   wrap_branch unpriced_client example_config (example_state 3 2 5 None) =
     Some (Inr (), (example_state 3 2 5 None)
       \<lparr>out := [ErrorCheckingBalance (Exception ''execution reverted''), InsufficientEth]\<rparr>) \<and>
   consistent (example_state 3 2 5 None) \<and>
   main_loop unpriced_client example_config (example_state 3 2 5 None) =
     main_loop unpriced_client example_config ((example_state 3 2 5 None)
       \<lparr>out := [ErrorCheckingBalance (Exception ''execution reverted''), InsufficientEth,
                ErrorCheckingBalance (Exception ''execution reverted''), InsufficientWeth],
        world := 10\<rparr>) \<and>
   wrap_counter ((example_state 3 2 5 None)
       \<lparr>out := [ErrorCheckingBalance (Exception ''execution reverted''), InsufficientEth,
                ErrorCheckingBalance (Exception ''execution reverted''), InsufficientWeth],
        world := 10\<rparr>) < 45 \<and>
   unwrap_weth_to_eth offline_client example_config amount_in_wei
       ((example_state 3 2 5 None)
          \<lparr>out := [ErrorSendingWrap (Exception ''connection refused'')]\<rparr>) =
     Some (Inr False, (example_state 3 2 5 None)
       \<lparr>out := [ErrorSendingWrap (Exception ''connection refused''),
                ErrorSendingUnwrap (Exception ''connection refused'')]\<rparr>) \<and>
   main_loop offline_client example_config (example_state 3 2 5 None) =
     main_loop offline_client example_config ((example_state 3 2 5 None)
       \<lparr>out := [ErrorSendingWrap (Exception ''connection refused''),
                ErrorSendingUnwrap (Exception ''connection refused'')],
        world := 10\<rparr>)"
proof -
  let ?s = "example_state 3 2 5 None"
  let ?e = "Exception ''execution reverted''"
  let ?x = "Exception ''connection refused''"
  let ?g = "?s\<lparr>out := [ErrorCheckingBalance ?e, InsufficientEth]\<rparr>"
  let ?g2 = "?s\<lparr>out := [ErrorCheckingBalance ?e, InsufficientEth,
      ErrorCheckingBalance ?e, InsufficientWeth]\<rparr>"
  let ?o1 = "?s\<lparr>out := [ErrorSendingWrap ?x]\<rparr>"
  let ?o2 = "?s\<lparr>out := [ErrorSendingWrap ?x, ErrorSendingUnwrap ?x]\<rparr>"
  have g: "wrap_counter ?s < 45 \<and> total_tx ?s < 90" "unwrap_counter ?o1 < 45 \<and> total_tx ?o1 < 90"
    by (simp_all add: example_state_def)
  have c0: "consistent ?s" by (simp add: consistent_def example_state_def)
  have e: "estimate_gas unpriced_client (Deposit amount_in_wei)
      (deposit_params example_config amount_in_wei) (world ?s) = (Inl ?e, 0)"
    by (simp add: example_defs)
  from soft_failures [where c = unpriced_client and cfg = example_config and s = ?s and
      amount = amount_in_wei and e = ?e and ?w1.0 = 0 and ?s1.0 = ?s and ?s2.0 = ?s and
      u = "()" and ?s0.0 = ?s and ?u0.0 = "()"] e
  have 1: "wrap_eth_to_weth unpriced_client example_config amount_in_wei ?s =
      Some (Inr False, ?g)"
    by (simp add: print_def example_state_def)
  have ub: "unwrap_branch unpriced_client example_config ?g = Some (Inr (), ?g2)"
    by (simp add: run_defs example_defs)
  from soft_failures [where c = unpriced_client and cfg = example_config and s = ?s and
      ?s1.0 = ?g and ?s2.0 = ?g2 and u = "()" and ?s0.0 = ?s and ?u0.0 = "()"] g(1) 1 c0 ub
  have 2: "wrap_branch unpriced_client example_config ?s = Some (Inr (), ?g) \<and>
      main_loop unpriced_client example_config ?s =
        main_loop unpriced_client example_config (sleep unpriced_client 10 ?g2) \<and>
      wrap_counter (sleep unpriced_client 10 ?g2) < 45"
    by blast
  have wb: "wrap_branch offline_client example_config ?s = Some (Inr (), ?o1)"
    by (simp add: run_defs example_defs)
  have o: "unwrap_weth_to_eth offline_client example_config amount_in_wei ?o1 =
      Some (Inr False, ?o2)"
    by (simp add: run_defs example_defs)
  from soft_failures [where c = offline_client and cfg = example_config and s = ?o1 and
      ?s1.0 = ?o2 and ?s0.0 = ?s and ?u0.0 = "()" and ?s2.0 = ?s and u = "()"] g o wb
  have 3: "main_loop offline_client example_config ?s =
      main_loop offline_client example_config (sleep offline_client 10 ?o2)"
    by blast
  have sl: "sleep unpriced_client 10 ?g2 = ?g2\<lparr>world := 10\<rparr>"
    "sleep offline_client 10 ?o2 = ?o2\<lparr>world := 10\<rparr>"
    by (simp_all add: sleep_def example_defs)
  from 1 2 c0 o 3 show ?thesis by (simp only: sl simp_thms)
qed

end
